theory Spec2Isabelle
  imports
    Complex_Main
    "HOL-Library.AList"
    "HOL-Library.Char_ord"
    "HOL-Library.List_Lexorder"
    "HOL-Library.Multiset"
    "HOL-Library.Sublist"
begin

section \<open>Data model\<close>

text \<open>
  The acquisition pipeline of \<^verbatim>\<open>Ashare_data\<close>: providers, the fallback fetcher
  (\<^verbatim>\<open>fetchers/daily.py\<close>), the retry decorator (\<^verbatim>\<open>utils/rate_limiter.py\<close>), the SQLite
  storage (\<^verbatim>\<open>storage/sqlite.py\<close>) and the two schedulers (\<^verbatim>\<open>scheduler/\<close>).

  Conventions of the embedding.
  \<^item> A Python \<^verbatim>\<open>float\<close> holding a price, a volume or a delay is a \<^typ>\<open>real\<close>, the number
    it denotes: the code only compares, selects and doubles such values. Where the
    special values of floats matter, which is the order of the prices after
    normalization, the code is modelled on floats with NaN and the infinities.
  \<^item> A raised exception is a value \<open>Raised e\<close>; \<open>py_exception\<close> stands for instances of
    subclasses of Python's \<^verbatim>\<open>Exception\<close>, which is what \<^verbatim>\<open>except Exception\<close> catches.
  \<^item> A network call or a provider is given by the outcome it produces; the calls a
    function makes are returned as a trace next to its result.
\<close>

datatype py_exception =
    TypeError | ValueError | AttributeError | OverflowError | RuntimeError | HTTPError
  | OtherError string

datatype 'a outcome = Returned 'a | Raised py_exception

text \<open>
  A decoded JSON document, as \<^verbatim>\<open>response.json()\<close> returns it. \<open>JDict\<close> lists the items
  of a \<^verbatim>\<open>dict\<close>, each key once.
\<close>

datatype json =
    JNull | JBool bool | JInt int | JFloat real | JStr string
  | JList "json list" | JDict "(string \<times> json) list"

text \<open>\<^verbatim>\<open>datetime.date\<close> and its \<^verbatim>\<open>isoformat()\<close>, which is \<^verbatim>\<open>"%04d-%02d-%02d"\<close>.\<close>

datatype date = Date (year: nat) (month: nat) (day: nat)

definition digit_char :: "nat \<Rightarrow> char" where
  "digit_char n = ''0123456789'' ! (n mod 10)"

fun str_nat :: "nat \<Rightarrow> string" where
  "str_nat n = (if n < 10 then [digit_char n] else str_nat (n div 10) @ [digit_char n])"

declare str_nat.simps [simp del]

definition zfill :: "nat \<Rightarrow> string \<Rightarrow> string" where
  "zfill w s = replicate (w - length s) (CHR ''0'') @ s"

definition isoformat :: "date \<Rightarrow> string" where
  "isoformat d =
     zfill 4 (str_nat (year d)) @ ''-'' @ zfill 2 (str_nat (month d)) @ ''-''
       @ zfill 2 (str_nat (day d))"

text \<open>
  \<^verbatim>\<open>strftime("%Y-%m-%d")\<close> of a date, as the C library of Linux formats it: the year is
  not padded, so it differs from \<^const>\<open>isoformat\<close> for years below 1000.
\<close>

definition strftime_ymd :: "date \<Rightarrow> string" where
  "strftime_ymd d =
     str_nat (year d) @ ''-'' @ zfill 2 (str_nat (month d)) @ ''-'' @ zfill 2 (str_nat (day d))"

text \<open>
  \<^verbatim>\<open>ProviderResult\<close> of \<^verbatim>\<open>providers/base.py\<close>. The field \<^verbatim>\<open>open\<close> is called \<open>open_price\<close>
  here, \<open>open\<close> being a constant of the library.
\<close>

record ProviderResult =
  symbol :: string
  trade_date :: date
  open_price :: real
  high :: real
  low :: real
  close :: real
  volume :: real
  turnover :: real
  raw :: json

text \<open>
  A provider as \<^verbatim>\<open>DailyFetcher\<close> sees it: its name, its priority, what
  \<^verbatim>\<open>fetch_daily(symbol, trade_date)\<close> produces and what \<^verbatim>\<open>close()\<close> produces.
\<close>

record Provider =
  name :: string
  priority :: int
  fetch_daily :: "string \<Rightarrow> date \<Rightarrow> ProviderResult option outcome"
  close_provider :: "unit outcome"

record DailyFetcher =
  providers :: "Provider list"

section \<open>The fallback fetcher\<close>

text \<open>\<^verbatim>\<open>a or b\<close> on floats: \<open>a\<close> when it is truthy (non-zero), else \<open>b\<close>.\<close>

definition py_or :: "real \<Rightarrow> real \<Rightarrow> real" where
  "py_or a b = (if a \<noteq> 0 then a else b)"

text \<open>
  \<^verbatim>\<open>max(a, b, c)\<close> and \<^verbatim>\<open>min(a, b, c)\<close>: the first argument is kept until a strictly
  greater (smaller) one is met.
\<close>

definition py_max3 :: "real \<Rightarrow> real \<Rightarrow> real \<Rightarrow> real" where
  "py_max3 a b c =
     (let m = a; m = (if b > m then b else m); m = (if c > m then c else m) in m)"

definition py_min3 :: "real \<Rightarrow> real \<Rightarrow> real \<Rightarrow> real" where
  "py_min3 a b c =
     (let m = a; m = (if b < m then b else m); m = (if c < m then c else m) in m)"

text \<open>\<^verbatim>\<open>DailyFetcher._clean\<close>: the assignments in the order of the source.\<close>

definition clean :: "ProviderResult \<Rightarrow> ProviderResult" where
  "clean result =
     (let r1 = result\<lparr>open_price := py_or (open_price result) (close result)\<rparr>;
          r2 = r1\<lparr>high := py_max3 (high r1) (open_price r1) (close r1)\<rparr>;
          r3 = r2\<lparr>low := py_min3 (low r2) (open_price r2) (close r2)\<rparr>;
          r4 = r3\<lparr>close := close r3\<rparr>;
          r5 = r4\<lparr>volume := py_or (volume r4) 0\<rparr>;
          r6 = r5\<lparr>turnover := py_or (turnover r5) 0\<rparr>
      in r6)"

text \<open>
  \<^verbatim>\<open>DailyFetcher.__init__\<close>: \<^verbatim>\<open>sorted(providers, key=priority, reverse=True)\<close>, a stable
  sort by descending priority, that is a stable ascending sort on the negated key.
\<close>

definition DailyFetcher_init :: "Provider list \<Rightarrow> DailyFetcher" where
  "DailyFetcher_init ps = \<lparr>providers = sort_key (\<lambda>provider. - priority provider) ps\<rparr>"

text \<open>
  The loop of \<^verbatim>\<open>DailyFetcher.fetch\<close>. The first component lists the providers whose
  \<^verbatim>\<open>fetch_daily\<close> was invoked, in order. A \<^verbatim>\<open>ProviderResult\<close> object is always truthy,
  so \<^verbatim>\<open>if result\<close> tells \<open>Some\<close> from \<open>None\<close>.
\<close>

fun fetch_loop ::
  "Provider list \<Rightarrow> string \<Rightarrow> date \<Rightarrow> Provider list \<times> ProviderResult option" where
  "fetch_loop [] s d = ([], None)"
| "fetch_loop (provider # rest) s d =
     (case fetch_daily provider s d of
        Raised exc \<Rightarrow> (let (tr, res) = fetch_loop rest s d in (provider # tr, res))
      | Returned None \<Rightarrow> (let (tr, res) = fetch_loop rest s d in (provider # tr, res))
      | Returned (Some result) \<Rightarrow> ([provider], Some (clean result)))"

definition fetch :: "DailyFetcher \<Rightarrow> string \<Rightarrow> date \<Rightarrow> Provider list \<times> ProviderResult option" where
  "fetch fetcher s d = fetch_loop (providers fetcher) s d"

text \<open>
  \<^verbatim>\<open>DailyFetcher.close\<close>: \<^verbatim>\<open>await provider.close()\<close> for each provider, with no handler
  around it. The first component lists the providers whose \<^verbatim>\<open>close()\<close> was invoked.
\<close>

fun close_loop :: "Provider list \<Rightarrow> Provider list \<times> unit outcome" where
  "close_loop [] = ([], Returned ())"
| "close_loop (provider # rest) =
     (case close_provider provider of
        Raised exc \<Rightarrow> ([provider], Raised exc)
      | Returned u \<Rightarrow> (let (tr, res) = close_loop rest in (provider # tr, res)))"

definition DailyFetcher_close :: "DailyFetcher \<Rightarrow> Provider list \<times> unit outcome" where
  "DailyFetcher_close fetcher = close_loop (providers fetcher)"

text \<open>A provider is usable for a request when its \<^verbatim>\<open>fetch_daily\<close> returns a bar.\<close>

definition usable :: "string \<Rightarrow> date \<Rightarrow> Provider \<Rightarrow> bool" where
  "usable s d provider =
     (case fetch_daily provider s d of Returned (Some result) \<Rightarrow> True | _ \<Rightarrow> False)"

definition closes_ok :: "Provider \<Rightarrow> bool" where
  "closes_ok provider = (close_provider provider = Returned ())"

section \<open>Normalization on floats\<close>

text \<open>
  The prices of a \<^verbatim>\<open>ProviderResult\<close> are Python floats, and \<^verbatim>\<open>float()\<close> in both providers
  also yields NaN and the infinities (from \<^verbatim>\<open>"nan"\<close>, \<^verbatim>\<open>"inf"\<close>). What \<^verbatim>\<open>_clean\<close> guarantees
  about the order of the prices depends on them, so \<^verbatim>\<open>_clean\<close> and \<^verbatim>\<open>fetch\<close> are modelled
  here a second time, on floats with these values: a number, an infinity or NaN, with
  Python's comparisons, which are false whenever an operand is NaN. The two zeros are
  the one number \<open>0\<close>, which compares as they do.
\<close>

datatype pyfloat = Finite real | PosInf | NegInf | NaN

text \<open>\<^verbatim>\<open>a < b\<close> and \<^verbatim>\<open>a <= b\<close> on floats.\<close>

fun float_lt :: "pyfloat \<Rightarrow> pyfloat \<Rightarrow> bool" where
  "float_lt (Finite x) (Finite y) = (x < y)"
| "float_lt (Finite x) PosInf = True"
| "float_lt (Finite x) NegInf = False"
| "float_lt NegInf (Finite y) = True"
| "float_lt NegInf PosInf = True"
| "float_lt NegInf NegInf = False"
| "float_lt PosInf b = False"
| "float_lt a NaN = False"
| "float_lt NaN b = False"

definition float_le :: "pyfloat \<Rightarrow> pyfloat \<Rightarrow> bool" where
  "float_le a b = (float_lt a b \<or> (a = b \<and> a \<noteq> NaN))"

text \<open>\<^verbatim>\<open>bool(a)\<close>, which is \<^verbatim>\<open>a != 0.0\<close>, and \<^verbatim>\<open>a or b\<close>.\<close>

fun float_truthy :: "pyfloat \<Rightarrow> bool" where
  "float_truthy (Finite x) = (x \<noteq> 0)"
| "float_truthy a = True"

definition float_or :: "pyfloat \<Rightarrow> pyfloat \<Rightarrow> pyfloat" where
  "float_or a b = (if float_truthy a then a else b)"

text \<open>
  \<^verbatim>\<open>max(a, b, c)\<close> and \<^verbatim>\<open>min(a, b, c)\<close>: the running value is replaced by an item when
  \<^verbatim>\<open>item > value\<close> (\<^verbatim>\<open>item < value\<close>) holds. \<open>float_max2\<close> and \<open>float_min2\<close> are one such step.
\<close>

definition float_max3 :: "pyfloat \<Rightarrow> pyfloat \<Rightarrow> pyfloat \<Rightarrow> pyfloat" where
  "float_max3 a b c =
     (let m = a; m = (if float_lt m b then b else m); m = (if float_lt m c then c else m) in m)"

definition float_min3 :: "pyfloat \<Rightarrow> pyfloat \<Rightarrow> pyfloat \<Rightarrow> pyfloat" where
  "float_min3 a b c =
     (let m = a; m = (if float_lt b m then b else m); m = (if float_lt c m then c else m) in m)"

definition float_max2 :: "pyfloat \<Rightarrow> pyfloat \<Rightarrow> pyfloat" where
  "float_max2 m b = (if float_lt m b then b else m)"

definition float_min2 :: "pyfloat \<Rightarrow> pyfloat \<Rightarrow> pyfloat" where
  "float_min2 m b = (if float_lt b m then b else m)"

text \<open>\<^verbatim>\<open>ProviderResult\<close>, a provider and \<^verbatim>\<open>DailyFetcher\<close> with float prices.\<close>

record ProviderResult_f =
  symbol_f :: string
  trade_date_f :: date
  open_f :: pyfloat
  high_f :: pyfloat
  low_f :: pyfloat
  close_f :: pyfloat
  volume_f :: pyfloat
  turnover_f :: pyfloat
  raw_f :: json

record Provider_f =
  name_f :: string
  priority_f :: int
  fetch_daily_f :: "string \<Rightarrow> date \<Rightarrow> ProviderResult_f option outcome"

text \<open>\<^verbatim>\<open>DailyFetcher._clean\<close>, \<^verbatim>\<open>__init__\<close> and \<^verbatim>\<open>fetch\<close> as above; \<^verbatim>\<open>0\<close> in \<^verbatim>\<open>x or 0\<close> becomes \<^verbatim>\<open>0.0\<close>.\<close>

definition clean_f :: "ProviderResult_f \<Rightarrow> ProviderResult_f" where
  "clean_f result =
     (let r1 = result\<lparr>open_f := float_or (open_f result) (close_f result)\<rparr>;
          r2 = r1\<lparr>high_f := float_max3 (high_f r1) (open_f r1) (close_f r1)\<rparr>;
          r3 = r2\<lparr>low_f := float_min3 (low_f r2) (open_f r2) (close_f r2)\<rparr>;
          r4 = r3\<lparr>close_f := close_f r3\<rparr>;
          r5 = r4\<lparr>volume_f := float_or (volume_f r4) (Finite 0)\<rparr>;
          r6 = r5\<lparr>turnover_f := float_or (turnover_f r5) (Finite 0)\<rparr>
      in r6)"

definition DailyFetcher_f_init :: "Provider_f list \<Rightarrow> Provider_f list" where
  "DailyFetcher_f_init ps = sort_key (\<lambda>provider. - priority_f provider) ps"

fun fetch_loop_f ::
  "Provider_f list \<Rightarrow> string \<Rightarrow> date \<Rightarrow> Provider_f list \<times> ProviderResult_f option" where
  "fetch_loop_f [] s d = ([], None)"
| "fetch_loop_f (provider # rest) s d =
     (case fetch_daily_f provider s d of
        Raised exc \<Rightarrow> (let (tr, res) = fetch_loop_f rest s d in (provider # tr, res))
      | Returned None \<Rightarrow> (let (tr, res) = fetch_loop_f rest s d in (provider # tr, res))
      | Returned (Some result) \<Rightarrow> ([provider], Some (clean_f result)))"

definition fetch_f :: "Provider_f list \<Rightarrow> string \<Rightarrow> date \<Rightarrow> Provider_f list \<times> ProviderResult_f option" where
  "fetch_f ps s d = fetch_loop_f (DailyFetcher_f_init ps) s d"

text \<open>
  A bar is ordered when \<open>low \<le> open \<le> high\<close> and \<open>low \<le> close \<le> high\<close> hold in Python;
  it is free of NaN when none of its four prices is NaN. \<open>to_float_result\<close> reads a
  bar of numbers as a bar of floats.
\<close>

definition ordered_bar :: "ProviderResult_f \<Rightarrow> bool" where
  "ordered_bar bar =
     (float_le (low_f bar) (open_f bar) \<and> float_le (open_f bar) (high_f bar) \<and>
      float_le (low_f bar) (close_f bar) \<and> float_le (close_f bar) (high_f bar))"

definition nan_free :: "ProviderResult_f \<Rightarrow> bool" where
  "nan_free result =
     (open_f result \<noteq> NaN \<and> high_f result \<noteq> NaN \<and> low_f result \<noteq> NaN \<and>
      close_f result \<noteq> NaN)"

definition to_float_result :: "ProviderResult \<Rightarrow> ProviderResult_f" where
  "to_float_result r =
     \<lparr>symbol_f = symbol r, trade_date_f = trade_date r, open_f = Finite (open_price r),
      high_f = Finite (high r), low_f = Finite (low r), close_f = Finite (close r),
      volume_f = Finite (volume r), turnover_f = Finite (turnover r), raw_f = raw r\<rparr>"

section \<open>Storage\<close>

text \<open>
  The table \<^verbatim>\<open>daily_bars\<close> of \<^verbatim>\<open>storage/sqlite.py\<close>: a list of rows in insertion order,
  with primary key \<^verbatim>\<open>(symbol, trade_date)\<close>; dates are stored as ISO strings and the raw
  payload as JSON text. The table \<^verbatim>\<open>securities\<close> is read by \<^verbatim>\<open>list_tracked_symbols\<close>.
\<close>

record DailyBarRow =
  row_symbol :: string
  row_trade_date :: string
  row_open :: real
  row_high :: real
  row_low :: real
  row_close :: real
  row_volume :: real
  row_turnover :: real
  row_raw_payload :: string

record SecurityRow =
  sec_symbol :: string
  sec_name :: string
  sec_asset_type :: string
  sec_listed_date :: "string option"
  sec_delisted_date :: "string option"

record SQLiteStorage =
  securities :: "SecurityRow list"
  daily_bars :: "DailyBarRow list"

text \<open>
  What a scheduler run does to its collaborators, in order: the storage reads, the
  batch writes (one \<^verbatim>\<open>executemany\<close> transaction each) and the calls of
  \<^verbatim>\<open>DailyFetcher.fetch\<close>.
\<close>

datatype io_event =
    ListTrackedSymbols
  | ExistingDates string
  | UpsertDailyBars "DailyBarRow list"
  | Fetch string date

text \<open>
  The tuple built for each bar by \<^verbatim>\<open>upsert_daily_bars\<close>. \<open>dumps\<close> stands for
  \<^verbatim>\<open>json_dumps\<close>, a wrapper of the library's \<^verbatim>\<open>json.dumps\<close>.
\<close>

definition record_of :: "(json \<Rightarrow> string) \<Rightarrow> ProviderResult \<Rightarrow> DailyBarRow" where
  "record_of dumps bar =
     \<lparr>row_symbol = symbol bar, row_trade_date = isoformat (trade_date bar),
      row_open = open_price bar, row_high = high bar, row_low = low bar,
      row_close = close bar, row_volume = volume bar, row_turnover = turnover bar,
      row_raw_payload = dumps (raw bar)\<rparr>"

definition same_key :: "DailyBarRow \<Rightarrow> DailyBarRow \<Rightarrow> bool" where
  "same_key a b = (row_symbol a = row_symbol b \<and> row_trade_date a = row_trade_date b)"

text \<open>
  \<^verbatim>\<open>INSERT INTO daily_bars ... ON CONFLICT(symbol, trade_date) DO UPDATE SET ...\<close> for
  one record: the row with the record's key gets every other column from the record;
  with no such row the record is appended.
\<close>

fun insert_or_update :: "DailyBarRow \<Rightarrow> DailyBarRow list \<Rightarrow> DailyBarRow list" where
  "insert_or_update excluded [] = [excluded]"
| "insert_or_update excluded (row # rows) =
     (if same_key row excluded
      then row\<lparr>row_open := row_open excluded, row_high := row_high excluded,
               row_low := row_low excluded, row_close := row_close excluded,
               row_volume := row_volume excluded, row_turnover := row_turnover excluded,
               row_raw_payload := row_raw_payload excluded\<rparr> # rows
      else row # insert_or_update excluded rows)"

text \<open>\<^verbatim>\<open>_upsert_daily_bars_sync\<close>: \<^verbatim>\<open>executemany\<close> runs the statement for each record in turn.\<close>

definition upsert_daily_bars_sync :: "SQLiteStorage \<Rightarrow> DailyBarRow list \<Rightarrow> SQLiteStorage" where
  "upsert_daily_bars_sync storage records =
     storage\<lparr>daily_bars := fold insert_or_update records (daily_bars storage)\<rparr>"

definition upsert_daily_bars ::
  "(json \<Rightarrow> string) \<Rightarrow> SQLiteStorage \<Rightarrow> ProviderResult list \<Rightarrow> SQLiteStorage \<times> io_event list" where
  "upsert_daily_bars dumps storage bars =
     (let records = map (record_of dumps) bars
      in if records = [] then (storage, [])
         else (upsert_daily_bars_sync storage records, [UpsertDailyBars records]))"

text \<open>\<^verbatim>\<open>SELECT trade_date FROM daily_bars WHERE symbol = ?\<close>, collected in a set.\<close>

definition existing_dates_sync :: "SQLiteStorage \<Rightarrow> string \<Rightarrow> string set" where
  "existing_dates_sync storage s =
     set (map row_trade_date (filter (\<lambda>row. row_symbol row = s) (daily_bars storage)))"

definition missing_daily_dates ::
  "SQLiteStorage \<Rightarrow> string \<Rightarrow> date list \<Rightarrow> date list \<times> io_event list" where
  "missing_daily_dates storage s dates =
     (let existing = existing_dates_sync storage s
      in (filter (\<lambda>td. isoformat td \<notin> existing) dates, [ExistingDates s]))"

text \<open>\<^verbatim>\<open>SELECT symbol FROM securities ORDER BY symbol\<close>: bytewise order of the text.\<close>

definition list_tracked_symbols :: "SQLiteStorage \<Rightarrow> string list \<times> io_event list" where
  "list_tracked_symbols storage = (sort (map sec_symbol (securities storage)), [ListTrackedSymbols])"

text \<open>
  Notions for stating properties of the table: the primary key of a row and of a bar,
  the rows stored under a key, the uniqueness of keys that SQLite maintains for
  \<^verbatim>\<open>PRIMARY KEY (symbol, trade_date)\<close>, and a sequence of calls of \<^verbatim>\<open>upsert_daily_bars\<close>.
\<close>

definition key_of :: "DailyBarRow \<Rightarrow> string \<times> string" where
  "key_of row = (row_symbol row, row_trade_date row)"

definition bar_key :: "ProviderResult \<Rightarrow> string \<times> string" where
  "bar_key bar = (symbol bar, isoformat (trade_date bar))"

definition rows_with_key :: "SQLiteStorage \<Rightarrow> string \<times> string \<Rightarrow> DailyBarRow list" where
  "rows_with_key storage k = filter (\<lambda>row. key_of row = k) (daily_bars storage)"

definition primary_key_ok :: "SQLiteStorage \<Rightarrow> bool" where
  "primary_key_ok storage = distinct (map key_of (daily_bars storage))"

definition upsert_batches :: "(json \<Rightarrow> string) \<Rightarrow> SQLiteStorage \<Rightarrow> ProviderResult list list \<Rightarrow> SQLiteStorage" where
  "upsert_batches dumps storage batches =
     fold (\<lambda>bars st. fst (upsert_daily_bars dumps st bars)) batches storage"

section \<open>Schedulers\<close>

text \<open>
  \<^verbatim>\<open>run_initial_load\<close> of \<^verbatim>\<open>scheduler/initializer.py\<close>. \<open>fetch_dates\<close> is the inner loop over
  the calendar with its accumulator \<^verbatim>\<open>bars\<close>; \<open>load_symbol\<close> is the body of the outer loop.
  The calendar comes from \<^verbatim>\<open>load_trading_calendar(start, end)\<close>, which reads the process
  settings and possibly a file: it is a parameter.
\<close>

fun fetch_dates ::
  "DailyFetcher \<Rightarrow> string \<Rightarrow> date list \<Rightarrow> ProviderResult list
     \<Rightarrow> ProviderResult list \<times> io_event list" where
  "fetch_dates fetcher s [] bars = (bars, [])"
| "fetch_dates fetcher s (td # rest) bars =
     (let result = snd (fetch fetcher s td);
          bars' = (case result of Some r \<Rightarrow> bars @ [r] | None \<Rightarrow> bars);
          (bars'', evs) = fetch_dates fetcher s rest bars'
      in (bars'', Fetch s td # evs))"

definition load_symbol ::
  "(json \<Rightarrow> string) \<Rightarrow> SQLiteStorage \<Rightarrow> DailyFetcher \<Rightarrow> date list \<Rightarrow> string
     \<Rightarrow> SQLiteStorage \<times> io_event list" where
  "load_symbol dumps storage fetcher calendar s =
     (let (bars, ev1) = fetch_dates fetcher s calendar [];
          (storage', ev2) =
             (if bars \<noteq> [] then upsert_daily_bars dumps storage bars else (storage, []))
      in (storage', ev1 @ ev2))"

fun initial_load_loop ::
  "(json \<Rightarrow> string) \<Rightarrow> SQLiteStorage \<Rightarrow> DailyFetcher \<Rightarrow> date list \<Rightarrow> string list
     \<Rightarrow> SQLiteStorage \<times> io_event list" where
  "initial_load_loop dumps storage fetcher calendar [] = (storage, [])"
| "initial_load_loop dumps storage fetcher calendar (s # rest) =
     (let (storage', ev1) = load_symbol dumps storage fetcher calendar s;
          (storage'', ev2) = initial_load_loop dumps storage' fetcher calendar rest
      in (storage'', ev1 @ ev2))"

definition run_initial_load ::
  "(json \<Rightarrow> string) \<Rightarrow> (date \<Rightarrow> date \<Rightarrow> date list) \<Rightarrow> SQLiteStorage \<Rightarrow> DailyFetcher
     \<Rightarrow> string list \<Rightarrow> date \<Rightarrow> date \<Rightarrow> SQLiteStorage \<times> io_event list" where
  "run_initial_load dumps load_trading_calendar storage fetcher symbols start end_date =
     (let calendar = load_trading_calendar start end_date
      in initial_load_loop dumps storage fetcher calendar symbols)"

text \<open>
  \<^verbatim>\<open>_compute_missing\<close> of \<^verbatim>\<open>scheduler/daily_update.py\<close>. The \<^verbatim>\<open>dict\<close> is an association list
  in insertion order; \<^verbatim>\<open>result[symbol] = v\<close> overwrites the value of a key already there
  and keeps its position, which is \<^const>\<open>AList.update\<close>.
\<close>

fun compute_missing ::
  "SQLiteStorage \<Rightarrow> string list \<Rightarrow> date \<Rightarrow> (string \<times> bool) list
     \<Rightarrow> (string \<times> bool) list \<times> io_event list" where
  "compute_missing storage [] td result = (result, [])"
| "compute_missing storage (s # rest) td result =
     (let (missing, ev1) = missing_daily_dates storage s [td];
          (result', ev2) =
             compute_missing storage rest td (AList.update s (missing \<noteq> []) result)
      in (result', ev1 @ ev2))"

text \<open>The loop of \<^verbatim>\<open>run_daily_update\<close> over \<^verbatim>\<open>missing_map.items()\<close>.\<close>

fun update_loop ::
  "(json \<Rightarrow> string) \<Rightarrow> SQLiteStorage \<Rightarrow> DailyFetcher \<Rightarrow> date \<Rightarrow> (string \<times> bool) list
     \<Rightarrow> SQLiteStorage \<times> io_event list" where
  "update_loop dumps storage fetcher td [] = (storage, [])"
| "update_loop dumps storage fetcher td ((s, should_fetch) # rest) =
     (if \<not> should_fetch then update_loop dumps storage fetcher td rest
      else
        (let bar = snd (fetch fetcher s td);
             (storage', ev1) =
                (case bar of Some b \<Rightarrow> upsert_daily_bars dumps storage [b]
                 | None \<Rightarrow> (storage, []));
             (storage'', ev2) = update_loop dumps storage' fetcher td rest
         in (storage'', Fetch s td # ev1 @ ev2)))"

definition run_daily_update ::
  "(json \<Rightarrow> string) \<Rightarrow> SQLiteStorage \<Rightarrow> DailyFetcher \<Rightarrow> date \<Rightarrow> string list option
     \<Rightarrow> SQLiteStorage \<times> io_event list" where
  "run_daily_update dumps storage fetcher td symbols =
     (let (symbols', ev0) =
            (case symbols of None \<Rightarrow> list_tracked_symbols storage | Some ss \<Rightarrow> (ss, []));
          (missing_map, ev1) = compute_missing storage symbols' td [];
          (storage', ev2) = update_loop dumps storage fetcher td missing_map
      in (storage', ev0 @ ev1 @ ev2))"

text \<open>
  Notions for stating properties of a scheduler run: the bars the fetcher returns over
  a calendar, the events one symbol of the initial load and one item of the
  missing-date map give rise to, and the storage reads and fetches of a symbol in a trace.
\<close>

definition fetched_bars :: "DailyFetcher \<Rightarrow> date list \<Rightarrow> string \<Rightarrow> ProviderResult list" where
  "fetched_bars fetcher calendar s = List.map_filter (\<lambda>td. snd (fetch fetcher s td)) calendar"

definition is_upsert :: "io_event \<Rightarrow> bool" where
  "is_upsert e = (case e of UpsertDailyBars records \<Rightarrow> True | _ \<Rightarrow> False)"

definition symbol_events ::
  "(json \<Rightarrow> string) \<Rightarrow> DailyFetcher \<Rightarrow> date list \<Rightarrow> string \<Rightarrow> io_event list" where
  "symbol_events dumps fetcher calendar s =
     map (Fetch s) calendar @
     (if fetched_bars fetcher calendar s = [] then []
      else [UpsertDailyBars (map (record_of dumps) (fetched_bars fetcher calendar s))])"

definition queries_of :: "string \<Rightarrow> io_event list \<Rightarrow> io_event list" where
  "queries_of s events = filter (\<lambda>e. e = ExistingDates s) events"

definition fetches_of :: "string \<Rightarrow> io_event list \<Rightarrow> io_event list" where
  "fetches_of s events =
     filter (\<lambda>e. case e of Fetch s' td \<Rightarrow> s' = s | _ \<Rightarrow> False) events"

definition is_missing :: "SQLiteStorage \<Rightarrow> date \<Rightarrow> string \<Rightarrow> bool" where
  "is_missing storage td s = (rows_with_key storage (s, isoformat td) = [])"

definition item_events ::
  "(json \<Rightarrow> string) \<Rightarrow> DailyFetcher \<Rightarrow> date \<Rightarrow> string \<times> bool \<Rightarrow> io_event list" where
  "item_events dumps fetcher td item =
     (if snd item then
        Fetch (fst item) td #
        (case snd (fetch fetcher (fst item) td) of
           Some b \<Rightarrow> [UpsertDailyBars [record_of dumps b]]
         | None \<Rightarrow> [])
      else [])"

section \<open>Retry\<close>

text \<open>
  \<^verbatim>\<open>async_retry\<close> of \<^verbatim>\<open>utils/rate_limiter.py\<close>. The wrapped operation is given by the
  outcome of each of its invocations, indexed by the attempt that makes it; \<open>exceptions\<close>
  tells which exceptions the \<^verbatim>\<open>except\<close> clause matches. \<open>retry_loop\<close> is the loop
  \<^verbatim>\<open>for attempt in range(1, attempts + 1)\<close> from \<open>attempt\<close> on; leaving the loop raises
  the \<^verbatim>\<open>RuntimeError\<close> of the last line.
\<close>

datatype retry_event = Invoke | Sleep real

function retry_loop ::
  "(py_exception \<Rightarrow> bool) \<Rightarrow> (int \<Rightarrow> 'a outcome) \<Rightarrow> int \<Rightarrow> int \<Rightarrow> real
     \<Rightarrow> retry_event list \<times> 'a outcome" where
  "retry_loop exceptions func attempts attempt delay =
     (if attempts < attempt then ([], Raised RuntimeError)
      else
        (case func attempt of
           Returned v \<Rightarrow> ([Invoke], Returned v)
         | Raised exc \<Rightarrow>
             (if exceptions exc then
                (if attempt = attempts then ([Invoke], Raised exc)
                 else
                   (let (tr, res) = retry_loop exceptions func attempts (attempt + 1) (delay * 2)
                    in (Invoke # Sleep delay # tr, res)))
              else ([Invoke], Raised exc))))"
  by pat_completeness auto
termination
  by (relation "measure (\<lambda>(exceptions, func, attempts, attempt, delay). nat (attempts + 1 - attempt))")
    auto

declare retry_loop.simps [simp del]

definition async_retry ::
  "int \<Rightarrow> real \<Rightarrow> (py_exception \<Rightarrow> bool) \<Rightarrow> (int \<Rightarrow> 'a outcome)
     \<Rightarrow> retry_event list \<times> 'a outcome" where
  "async_retry attempts base_delay exceptions func =
     retry_loop exceptions func attempts 1 base_delay"

section \<open>Providers\<close>

text \<open>
  The payload handling of \<^verbatim>\<open>providers/qq.py\<close> and \<^verbatim>\<open>providers/eastmoney.py\<close>, with
  Python's behaviour on each kind of JSON value written out: truthiness, the method
  \<^verbatim>\<open>get\<close> (only a \<^verbatim>\<open>dict\<close> has it), \<^verbatim>\<open>float(x)\<close> and iteration. \<open>str2float\<close> stands for
  \<^verbatim>\<open>float\<close> on a \<^verbatim>\<open>str\<close> that denotes a number: \<open>None\<close> where it raises \<^verbatim>\<open>ValueError\<close>.
  \<^verbatim>\<open>float\<close> on an \<^verbatim>\<open>int\<close> raises \<^verbatim>\<open>OverflowError\<close> from \<open>2^1024 - 2^970\<close> on, the first
  integer that rounds beyond the largest float; below, the value is taken as it is,
  where Python rounds it to the nearest float.
\<close>

definition obind :: "'a outcome \<Rightarrow> ('a \<Rightarrow> 'b outcome) \<Rightarrow> 'b outcome" where
  "obind m f = (case m of Raised exc \<Rightarrow> Raised exc | Returned v \<Rightarrow> f v)"

fun truthy :: "json \<Rightarrow> bool" where
  "truthy JNull = False"
| "truthy (JBool b) = b"
| "truthy (JInt i) = (i \<noteq> 0)"
| "truthy (JFloat x) = (x \<noteq> 0)"
| "truthy (JStr s) = (s \<noteq> [])"
| "truthy (JList xs) = (xs \<noteq> [])"
| "truthy (JDict kvs) = (kvs \<noteq> [])"

fun py_get :: "json \<Rightarrow> string \<Rightarrow> json \<Rightarrow> json outcome" where
  "py_get (JDict kvs) k dflt = Returned (case map_of kvs k of Some v \<Rightarrow> v | None \<Rightarrow> dflt)"
| "py_get obj k dflt = Raised AttributeError"

fun py_float :: "(string \<Rightarrow> real option) \<Rightarrow> json \<Rightarrow> real outcome" where
  "py_float str2float JNull = Raised TypeError"
| "py_float str2float (JBool b) = Returned (if b then 1 else 0)"
| "py_float str2float (JInt i) =
     (if \<bar>i\<bar> < 2 ^ 1024 - 2 ^ 970 then Returned (real_of_int i) else Raised OverflowError)"
| "py_float str2float (JFloat x) = Returned x"
| "py_float str2float (JStr s) =
     (case str2float s of Some x \<Rightarrow> Returned x | None \<Rightarrow> Raised ValueError)"
| "py_float str2float (JList xs) = Raised TypeError"
| "py_float str2float (JDict kvs) = Raised TypeError"

fun py_iter :: "json \<Rightarrow> json list outcome" where
  "py_iter (JList xs) = Returned xs"
| "py_iter (JStr s) = Returned (map (\<lambda>c. JStr [c]) s)"
| "py_iter (JDict kvs) = Returned (map (\<lambda>kv. JStr (fst kv)) kvs)"
| "py_iter obj = Raised TypeError"

text \<open>\<^verbatim>\<open>try: ... except (TypeError, ValueError): return None\<close>.\<close>

definition except_type_value :: "'a option outcome \<Rightarrow> 'a option outcome" where
  "except_type_value m =
     (case m of
        Raised exc \<Rightarrow> (if exc = TypeError \<or> exc = ValueError then Returned None else Raised exc)
      | Returned v \<Rightarrow> Returned v)"

text \<open>\<^verbatim>\<open>float(bar.get(k1, bar.get(k2, dflt)))\<close>.\<close>

definition float_field ::
  "(string \<Rightarrow> real option) \<Rightarrow> json \<Rightarrow> string \<Rightarrow> string \<Rightarrow> json \<Rightarrow> real outcome" where
  "float_field str2float bar k1 k2 dflt =
     obind (py_get bar k2 dflt) (\<lambda>d2. obind (py_get bar k1 d2) (py_float str2float))"

text \<open>The choice of \<^verbatim>\<open>bar\<close> in \<^verbatim>\<open>QQProvider._parse_payload\<close>.\<close>

definition QQ_select_bar :: "json \<Rightarrow> json outcome" where
  "QQ_select_bar data =
     obind (py_get data ''diff'' JNull)
       (\<lambda>diff. case diff of JList (b # bs) \<Rightarrow> Returned b | _ \<Rightarrow> Returned data)"

text \<open>The four conversions inside the \<^verbatim>\<open>try\<close> block of \<^verbatim>\<open>QQProvider._parse_payload\<close>.\<close>

definition QQ_prices ::
  "(string \<Rightarrow> real option) \<Rightarrow> json \<Rightarrow> (real \<times> real \<times> real \<times> real) outcome" where
  "QQ_prices str2float bar =
     obind (float_field str2float bar ''open'' ''openPrice'' JNull) (\<lambda>p_open.
     obind (float_field str2float bar ''high'' ''highest'' JNull) (\<lambda>p_high.
     obind (float_field str2float bar ''low'' ''lowest'' JNull) (\<lambda>p_low.
     obind (float_field str2float bar ''close'' ''price'' JNull) (\<lambda>p_close.
       Returned (p_open, p_high, p_low, p_close)))))"

definition QQ_parse_payload ::
  "(string \<Rightarrow> real option) \<Rightarrow> string \<Rightarrow> date \<Rightarrow> json \<Rightarrow> ProviderResult option outcome" where
  "QQ_parse_payload str2float s td payload =
     obind (py_get payload ''data'' JNull) (\<lambda>v.
       let data = (if truthy v then v else JDict []) in
       if \<not> truthy data then Returned None
       else
         obind (QQ_select_bar data) (\<lambda>bar.
           case QQ_prices str2float bar of
             Raised exc \<Rightarrow>
               (if exc = TypeError \<or> exc = ValueError then Returned None else Raised exc)
           | Returned (p_open, p_high, p_low, p_close) \<Rightarrow>
               obind (float_field str2float bar ''volume'' ''vol'' (JInt 0)) (\<lambda>vol.
               obind (float_field str2float bar ''turnover'' ''turn'' (JInt 0)) (\<lambda>turn.
                 Returned (Some
                   \<lparr>symbol = s, trade_date = td, open_price = p_open, high = p_high,
                    low = p_low, close = p_close, volume = vol, turnover = turn,
                    raw = payload\<rparr>)))))"

text \<open>
  \<^verbatim>\<open>fetch_daily\<close> of both providers: \<open>request\<close> gives the outcome of the retried network
  call (\<open>JNull\<close> for \<^verbatim>\<open>None\<close>); a falsy payload is absent, any other is parsed.
\<close>

definition QQ_fetch_daily ::
  "(string \<Rightarrow> real option) \<Rightarrow> (string \<Rightarrow> date \<Rightarrow> json outcome) \<Rightarrow> string \<Rightarrow> date
     \<Rightarrow> ProviderResult option outcome" where
  "QQ_fetch_daily str2float request s td =
     obind (request s td) (\<lambda>payload.
       if \<not> truthy payload then Returned None else QQ_parse_payload str2float s td payload)"

text \<open>\<^verbatim>\<open>str.split(sep)\<close> for a separator of one character.\<close>

fun split_on :: "char \<Rightarrow> string \<Rightarrow> string list" where
  "split_on c [] = [[]]"
| "split_on c (x # xs) =
     (if x = c then [] # split_on c xs
      else (case split_on c xs of w # ws \<Rightarrow> (x # w) # ws | [] \<Rightarrow> [[x]]))"

text \<open>
  The search for the row of the requested day in \<^verbatim>\<open>EastMoneyProvider._parse_payload\<close>:
  the first item that is a string starting with the date as \<^verbatim>\<open>strftime("%Y-%m-%d")\<close>
  writes it.
\<close>

fun find_target :: "string \<Rightarrow> json list \<Rightarrow> string option" where
  "find_target date_str [] = None"
| "find_target date_str (JStr row # rest) =
     (if prefix date_str row then Some row else find_target date_str rest)"
| "find_target date_str (row # rest) = find_target date_str rest"

text \<open>
  The \<^verbatim>\<open>try\<close> block of \<^verbatim>\<open>EastMoneyProvider._parse_payload\<close>: unpacking anything but seven
  fields raises \<^verbatim>\<open>ValueError\<close>; the conversions run in the order of the keyword arguments.
\<close>

definition EastMoney_parse_row ::
  "(string \<Rightarrow> real option) \<Rightarrow> string \<Rightarrow> date \<Rightarrow> json \<Rightarrow> string \<Rightarrow> ProviderResult option outcome" where
  "EastMoney_parse_row str2float s td payload target =
     (case take 7 (split_on (CHR '','') target) of
        [f_date, f_open, f_close, f_high, f_low, f_volume, f_turnover] \<Rightarrow>
          obind (py_float str2float (JStr f_open)) (\<lambda>p_open.
          obind (py_float str2float (JStr f_high)) (\<lambda>p_high.
          obind (py_float str2float (JStr f_low)) (\<lambda>p_low.
          obind (py_float str2float (JStr f_close)) (\<lambda>p_close.
          obind (py_float str2float (JStr f_volume)) (\<lambda>vol.
          obind (py_float str2float (JStr f_turnover)) (\<lambda>turn.
            Returned (Some
              \<lparr>symbol = s, trade_date = td, open_price = p_open, high = p_high,
               low = p_low, close = p_close, volume = vol, turnover = turn,
               raw = payload\<rparr>)))))))
      | _ \<Rightarrow> Raised ValueError)"

definition EastMoney_parse_payload ::
  "(string \<Rightarrow> real option) \<Rightarrow> string \<Rightarrow> date \<Rightarrow> json \<Rightarrow> ProviderResult option outcome" where
  "EastMoney_parse_payload str2float s td payload =
     obind (py_get payload ''data'' JNull) (\<lambda>v.
       let data = (if truthy v then v else JDict []) in
       obind (py_get data ''klines'' JNull) (\<lambda>klines.
         if \<not> truthy klines then Returned None
         else
           obind (py_iter klines) (\<lambda>rows.
             case find_target (strftime_ymd td) rows of
               None \<Rightarrow> Returned None
             | Some target \<Rightarrow>
                 except_type_value (EastMoney_parse_row str2float s td payload target))))"

definition EastMoney_fetch_daily ::
  "(string \<Rightarrow> real option) \<Rightarrow> (string \<Rightarrow> date \<Rightarrow> json outcome) \<Rightarrow> string \<Rightarrow> date
     \<Rightarrow> ProviderResult option outcome" where
  "EastMoney_fetch_daily str2float request s td =
     obind (request s td) (\<lambda>payload.
       if \<not> truthy payload then Returned None
       else EastMoney_parse_payload str2float s td payload)"

text \<open>
  The two providers as \<^verbatim>\<open>DailyFetcher\<close> holds them. \<open>client\<close> is the injected HTTP client,
  if any, given by what its \<^verbatim>\<open>aclose()\<close> produces. \<^verbatim>\<open>__init__\<close> sets \<^verbatim>\<open>_owns_client\<close> to
  \<^verbatim>\<open>client is None\<close>, and \<^verbatim>\<open>close()\<close> closes the client when
  \<^verbatim>\<open>self._owns_client and self._client is not None\<close>.
\<close>

definition provider_close :: "unit outcome option \<Rightarrow> unit outcome" where
  "provider_close client =
     (let owns_client = (client = None)
      in if owns_client \<and> client \<noteq> None
         then (case client of Some aclose \<Rightarrow> aclose | None \<Rightarrow> Returned ())
         else Returned ())"

definition QQProvider ::
  "(string \<Rightarrow> real option) \<Rightarrow> (string \<Rightarrow> date \<Rightarrow> json outcome) \<Rightarrow> int
     \<Rightarrow> unit outcome option \<Rightarrow> Provider" where
  "QQProvider str2float request prio client =
     \<lparr>name = ''qq'', priority = prio, fetch_daily = QQ_fetch_daily str2float request,
      close_provider = provider_close client\<rparr>"

definition EastMoneyProvider ::
  "(string \<Rightarrow> real option) \<Rightarrow> (string \<Rightarrow> date \<Rightarrow> json outcome) \<Rightarrow> int
     \<Rightarrow> unit outcome option \<Rightarrow> Provider" where
  "EastMoneyProvider str2float request prio client =
     \<lparr>name = ''eastmoney'', priority = prio,
      fetch_daily = EastMoney_fetch_daily str2float request,
      close_provider = provider_close client\<rparr>"

section \<open>Example values\<close>

text \<open>Concrete providers and a raw bar, used to instantiate the theorems below.\<close>

definition raw_bar :: "string \<Rightarrow> date \<Rightarrow> ProviderResult" where
  "raw_bar s d =
     \<lparr>symbol = s, trade_date = d, open_price = 0, high = 10, low = 9.5, close = 10.2,
      volume = 1200, turnover = 0, raw = JDict []\<rparr>"

definition provider_A :: Provider where
  "provider_A =
     \<lparr>name = ''A'', priority = 10, fetch_daily = (\<lambda>s d. Raised HTTPError),
      close_provider = Raised RuntimeError\<rparr>"

definition provider_B :: Provider where
  "provider_B =
     \<lparr>name = ''B'', priority = 5, fetch_daily = (\<lambda>s d. Returned (Some (raw_bar s d))),
      close_provider = Returned ()\<rparr>"

definition provider_C :: Provider where
  "provider_C =
     \<lparr>name = ''C'', priority = 5, fetch_daily = (\<lambda>s d. Returned None),
      close_provider = Returned ()\<rparr>"

definition example_dumps :: "json \<Rightarrow> string" where
  "example_dumps j = (case j of JDict [] \<Rightarrow> ''{}'' | _ \<Rightarrow> ''null'')"

definition empty_storage :: SQLiteStorage where
  "empty_storage = \<lparr>securities = [], daily_bars = []\<rparr>"

definition provider_D :: Provider where
  "provider_D =
     \<lparr>name = ''D'', priority = 0,
      fetch_daily = (\<lambda>s d. if day d = 4 \<or> day d = 6 \<or> day d = 8
                             then Returned (Some (raw_bar s d)) else Returned None),
      close_provider = Returned ()\<rparr>"

definition example_calendar :: "date \<Rightarrow> date \<Rightarrow> date list" where
  "example_calendar start end_date =
     [Date 2024 3 4, Date 2024 3 5, Date 2024 3 6, Date 2024 3 7, Date 2024 3 8]"

definition always_failing :: "int \<Rightarrow> unit outcome" where
  "always_failing attempt = Raised HTTPError"

definition any_exception :: "py_exception \<Rightarrow> bool" where
  "any_exception exc = True"

definition example_str2float :: "string \<Rightarrow> real option" where
  "example_str2float s =
     (if s = ''9'' then Some 9 else if s = ''10'' then Some 10
      else if s = ''10.5'' then Some 10.5 else if s = ''11'' then Some 11
      else if s = ''1200'' then Some 1200 else if s = ''12600'' then Some 12600
      else None)"

definition qq_payload_null_volume :: json where
  "qq_payload_null_volume =
     JDict [(''data'', JDict [(''open'', JFloat 10), (''high'', JFloat 11), (''low'', JFloat 9),
                               (''close'', JFloat 10.5), (''volume'', JNull)])]"

definition qq_payload_text_volume :: json where
  "qq_payload_text_volume =
     JDict [(''data'', JDict [(''open'', JStr ''10''), (''high'', JStr ''11''), (''low'', JStr ''9''),
                               (''close'', JStr ''10.5''), (''volume'', JStr ''-'')])]"

definition qq_payload_no_close :: json where
  "qq_payload_no_close =
     JDict [(''data'', JDict [(''open'', JFloat 10), (''high'', JFloat 11), (''low'', JFloat 9),
                               (''volume'', JInt 1200)])]"

definition eastmoney_payload_text_volume :: json where
  "eastmoney_payload_text_volume =
     JDict [(''data'', JDict [(''klines'', JList [JStr ''2024-03-05,10,10.5,11,9,-,12600''])])]"

definition eastmoney_payload_scalar_klines :: json where
  "eastmoney_payload_scalar_klines = JDict [(''data'', JDict [(''klines'', JInt 5)])]"

definition nan_open_bar :: ProviderResult_f where
  "nan_open_bar =
     \<lparr>symbol_f = ''000001'', trade_date_f = Date 2024 3 5, open_f = NaN, high_f = Finite 11,
      low_f = Finite 9, close_f = Finite 10, volume_f = Finite 1200, turnover_f = Finite 0,
      raw_f = JDict []\<rparr>"

definition provider_nan :: Provider_f where
  "provider_nan =
     \<lparr>name_f = ''N'', priority_f = 0, fetch_daily_f = (\<lambda>s d. Returned (Some nan_open_bar))\<rparr>"

definition zero_open_bar :: ProviderResult_f where
  "zero_open_bar =
     \<lparr>symbol_f = ''000001'', trade_date_f = Date 2024 3 5, open_f = Finite 0, high_f = Finite 10,
      low_f = Finite 9.5, close_f = Finite 10.2, volume_f = Finite 1200, turnover_f = Finite 0,
      raw_f = JDict []\<rparr>"

definition provider_zero_open :: Provider_f where
  "provider_zero_open =
     \<lparr>name_f = ''Z'', priority_f = 0, fetch_daily_f = (\<lambda>s d. Returned (Some zero_open_bar))\<rparr>"
section \<open>Properties of the fallback fetcher\<close>

lemma py_max3_eq: "py_max3 a b c = max a (max b c)"
  by (simp add: py_max3_def Let_def max_def)

lemma py_min3_eq: "py_min3 a b c = min a (min b c)"
  by (simp add: py_min3_def Let_def min_def)

lemma clean_fields:
  "symbol (clean r) = symbol r"
  "trade_date (clean r) = trade_date r"
  "open_price (clean r) = py_or (open_price r) (close r)"
  "high (clean r) = py_max3 (high r) (py_or (open_price r) (close r)) (close r)"
  "low (clean r) = py_min3 (low r) (py_or (open_price r) (close r)) (close r)"
  "close (clean r) = close r"
  "volume (clean r) = volume r"
  "turnover (clean r) = turnover r"
  "raw (clean r) = raw r"
  by (simp_all add: clean_def Let_def py_or_def)

text \<open>On numbers, normalization always orders the prices.\<close>

lemma clean_bounds:
  "low (clean r) \<le> open_price (clean r)" "open_price (clean r) \<le> high (clean r)"
  "low (clean r) \<le> close (clean r)" "close (clean r) \<le> high (clean r)"
  by (simp_all add: clean_fields py_max3_eq py_min3_eq)

lemma fetch_loop_unusable:
  "\<not> usable s d p \<Longrightarrow>
     fetch_loop (p # ps) s d = (p # fst (fetch_loop ps s d), snd (fetch_loop ps s d))"
  by (auto simp: usable_def split: outcome.splits option.splits prod.splits)

lemma close_loop_ok:
  "closes_ok p \<Longrightarrow> close_loop (p # ps) = (p # fst (close_loop ps), snd (close_loop ps))"
  by (auto simp: closes_ok_def split: prod.splits)

lemma sorted_desc: "sorted_wrt (\<lambda>a b. priority b \<le> priority a) (sort_key (\<lambda>p. - priority p) ps)"
proof -
  have "sorted (map (\<lambda>p. - priority p) (sort_key (\<lambda>p. - priority p) ps))" by (rule sorted_sort_key)
  then show ?thesis by (simp add: sorted_map)
qed

lemma fetch_loop_first_usable:
  "\<forall>q \<in> set pre. \<not> usable s d q \<Longrightarrow> fetch_daily p s d = Returned (Some r) \<Longrightarrow>
     fetch_loop (pre @ p # post) s d = (pre @ [p], Some (clean r))"
proof (induction pre)
  case Nil
  then show ?case by simp
next
  case (Cons a pre)
  then show ?case by (simp add: fetch_loop_unusable del: fetch_loop.simps)
qed

lemma fetch_loop_none_usable:
  "\<forall>q \<in> set qs. \<not> usable s d q \<Longrightarrow> fetch_loop qs s d = (qs, None)"
proof (induction qs)
  case Nil
  then show ?case by simp
next
  case (Cons a qs)
  then show ?case by (simp add: fetch_loop_unusable del: fetch_loop.simps)
qed

lemma close_loop_all_ok:
  "\<forall>q \<in> set qs. closes_ok q \<Longrightarrow> close_loop qs = (qs, Returned ())"
proof (induction qs)
  case Nil
  then show ?case by simp
next
  case (Cons a qs)
  then show ?case by (simp add: close_loop_ok del: close_loop.simps)
qed

lemma close_loop_first_failure:
  "\<forall>q \<in> set pre. closes_ok q \<Longrightarrow> close_provider p = Raised exc \<Longrightarrow>
     close_loop (pre @ p # post) = (pre @ [p], Raised exc)"
proof (induction pre)
  case Nil
  then show ?case by simp
next
  case (Cons a pre)
  then show ?case by (simp add: close_loop_ok del: close_loop.simps)
qed

text \<open>
  Claim C9. For a \<^verbatim>\<open>ProviderResult\<close> whose open is zero, normalization sets the open to
  the close, and the high and the low are then computed from that open: they are the
  maximum of the raw high and the close, and the minimum of the raw low and the close.
\<close>

theorem clean_defaults_open_to_close:
  assumes "open_price result = 0"
  shows "open_price (clean result) = close (clean result) \<and>
         close (clean result) = close result \<and>
         high (clean result) = py_max3 (high result) (close result) (close result) \<and>
         low (clean result) = py_min3 (low result) (close result) (close result) \<and>
         high (clean result) = max (high result) (close result) \<and>
         low (clean result) = min (low result) (close result)"
  using assms by (simp add: clean_fields py_or_def py_max3_eq py_min3_eq)

theorem clean_defaults_open_to_close_witness:
  "open_price (raw_bar ''000001'' (Date 2024 1 2)) = 0 \<and>
   open_price (clean (raw_bar ''000001'' (Date 2024 1 2))) = 10.2 \<and>
   close (clean (raw_bar ''000001'' (Date 2024 1 2))) = 10.2 \<and>
   high (clean (raw_bar ''000001'' (Date 2024 1 2))) = 10.2 \<and>
   low (clean (raw_bar ''000001'' (Date 2024 1 2))) = 9.5"
proof -
  have z: "open_price (raw_bar ''000001'' (Date 2024 1 2)) = 0"
    by (simp add: raw_bar_def)
  from clean_defaults_open_to_close [OF z] z show ?thesis
    by (simp add: raw_bar_def)
qed

text \<open>
  Claim C2. The fetcher holds its providers sorted by descending priority, a
  rearrangement of the given ones in which providers of equal priority keep their
  relative order. \<^verbatim>\<open>fetch\<close> invokes them in that order: it passes over each provider that
  raises or returns nothing, returns the normalized bar of the first provider that
  returns one, invoking no later provider, and returns nothing, having invoked every
  provider, when none returns a bar.
\<close>

theorem fetch_falls_back_by_priority:
  "mset (providers (DailyFetcher_init ps)) = mset ps \<and>
   sorted_wrt (\<lambda>a b. priority b \<le> priority a) (providers (DailyFetcher_init ps)) \<and>
   (\<forall>k. filter (\<lambda>p. priority p = k) (providers (DailyFetcher_init ps)) =
        filter (\<lambda>p. priority p = k) ps) \<and>
   (\<forall>pre p post r.
      providers (DailyFetcher_init ps) = pre @ p # post \<and>
      (\<forall>q \<in> set pre. \<not> usable s d q) \<and> fetch_daily p s d = Returned (Some r) \<longrightarrow>
      fetch (DailyFetcher_init ps) s d = (pre @ [p], Some (clean r))) \<and>
   ((\<forall>q \<in> set ps. \<not> usable s d q) \<longrightarrow>
      fetch (DailyFetcher_init ps) s d = (providers (DailyFetcher_init ps), None))"
proof -
  let ?qs = "providers (DailyFetcher_init ps)"
  have qs: "?qs = sort_key (\<lambda>p. - priority p) ps"
    by (simp add: DailyFetcher_init_def)
  have perm: "mset ?qs = mset ps"
    by (simp add: qs)
  have desc: "sorted_wrt (\<lambda>a b. priority b \<le> priority a) ?qs"
    unfolding qs by (rule sorted_desc)
  have stable: "\<forall>k. filter (\<lambda>p. priority p = k) ?qs = filter (\<lambda>p. priority p = k) ps"
  proof
    fix k
    have "filter (\<lambda>p. - priority p = - k) (sort_key (\<lambda>p. - priority p) ps) =
          filter (\<lambda>p. - priority p = - k) ps"
      by (rule sort_key_stable)
    then show "filter (\<lambda>p. priority p = k) ?qs = filter (\<lambda>p. priority p = k) ps"
      by (simp add: qs)
  qed
  have first: "\<forall>pre p post r.
      ?qs = pre @ p # post \<and>
      (\<forall>q \<in> set pre. \<not> usable s d q) \<and> fetch_daily p s d = Returned (Some r) \<longrightarrow>
      fetch (DailyFetcher_init ps) s d = (pre @ [p], Some (clean r))"
    by (auto simp: fetch_def fetch_loop_first_usable simp del: fetch_loop.simps)
  have "set ?qs = set ps"
    by (simp add: qs)
  then have none: "(\<forall>q \<in> set ps. \<not> usable s d q) \<longrightarrow>
      fetch (DailyFetcher_init ps) s d = (?qs, None)"
    by (auto simp: fetch_def intro!: fetch_loop_none_usable)
  from perm desc stable first none show ?thesis by blast
qed

theorem fetch_falls_back_by_priority_witness:
  "map name (providers (DailyFetcher_init [provider_C, provider_B, provider_A])) = [''A'', ''C'', ''B''] \<and>
   map name (fst (fetch (DailyFetcher_init [provider_C, provider_B, provider_A]) ''000001'' (Date 2024 1 2)))
     = [''A'', ''C'', ''B''] \<and>
   snd (fetch (DailyFetcher_init [provider_C, provider_B, provider_A]) ''000001'' (Date 2024 1 2))
     = Some (clean (raw_bar ''000001'' (Date 2024 1 2)))"
proof -
  let ?ps = "[provider_C, provider_B, provider_A]"
  have qs: "providers (DailyFetcher_init ?ps) = [provider_A, provider_C] @ provider_B # []"
    by (simp add: DailyFetcher_init_def provider_A_def provider_B_def provider_C_def)
  have pre: "\<forall>q \<in> set [provider_A, provider_C]. \<not> usable ''000001'' (Date 2024 1 2) q"
    by (simp add: usable_def provider_A_def provider_C_def)
  have hit: "fetch_daily provider_B ''000001'' (Date 2024 1 2)
      = Returned (Some (raw_bar ''000001'' (Date 2024 1 2)))"
    by (simp add: provider_B_def)
  from fetch_falls_back_by_priority [of ?ps "''000001''" "Date 2024 1 2"] qs pre hit
  have "fetch (DailyFetcher_init ?ps) ''000001'' (Date 2024 1 2)
      = ([provider_A, provider_C] @ [provider_B], Some (clean (raw_bar ''000001'' (Date 2024 1 2))))"
    by blast
  then show ?thesis
    by (simp add: qs) (simp add: provider_A_def provider_B_def provider_C_def)
qed

text \<open>
  Claim C8, as amended. \<^verbatim>\<open>DailyFetcher.close\<close> invokes \<^verbatim>\<open>close()\<close> on the providers in
  their order. When no \<^verbatim>\<open>close()\<close> fails, every provider is closed. When one fails, its
  exception reaches the caller and \<^verbatim>\<open>close()\<close> is not invoked on the providers after it.
\<close>

theorem close_stops_at_first_failure:
  "((\<forall>q \<in> set (providers fetcher). closes_ok q) \<longrightarrow>
      DailyFetcher_close fetcher = (providers fetcher, Returned ())) \<and>
   (\<forall>pre p post exc.
      providers fetcher = pre @ p # post \<and> (\<forall>q \<in> set pre. closes_ok q) \<and>
      close_provider p = Raised exc \<longrightarrow>
      DailyFetcher_close fetcher = (pre @ [p], Raised exc))"
  by (auto simp: DailyFetcher_close_def close_loop_all_ok close_loop_first_failure
      simp del: close_loop.simps)

theorem close_stops_at_first_failure_witness:
  "DailyFetcher_close \<lparr>providers = [provider_B, provider_C]\<rparr>
     = ([provider_B, provider_C], Returned ()) \<and>
   DailyFetcher_close \<lparr>providers = [provider_C, provider_A, provider_B]\<rparr>
     = ([provider_C, provider_A], Raised RuntimeError)"
proof -
  have ok: "\<forall>q \<in> set (providers \<lparr>providers = [provider_B, provider_C]\<rparr>). closes_ok q"
    by (simp add: closes_ok_def provider_B_def provider_C_def)
  have split: "providers \<lparr>providers = [provider_C, provider_A, provider_B]\<rparr>
      = [provider_C] @ provider_A # [provider_B]"
    by simp
  have pre: "\<forall>q \<in> set [provider_C]. closes_ok q"
    by (simp add: closes_ok_def provider_C_def)
  have fail: "close_provider provider_A = Raised RuntimeError"
    by (simp add: provider_A_def)
  from close_stops_at_first_failure [of "\<lparr>providers = [provider_B, provider_C]\<rparr>"] ok
  have one: "DailyFetcher_close \<lparr>providers = [provider_B, provider_C]\<rparr>
      = ([provider_B, provider_C], Returned ())"
    by simp
  from close_stops_at_first_failure [of "\<lparr>providers = [provider_C, provider_A, provider_B]\<rparr>"]
    split pre fail
  have two: "DailyFetcher_close \<lparr>providers = [provider_C, provider_A, provider_B]\<rparr>
      = ([provider_C] @ [provider_A], Raised RuntimeError)"
    by blast
  from one two show ?thesis by simp
qed

text \<open>
  Claim C8 as stated fails: with a provider whose \<^verbatim>\<open>close()\<close> raises ahead of another
  one, the second is never closed.
\<close>

theorem close_skips_later_providers_counterexample:
  "providers (DailyFetcher_init [provider_B, provider_A]) = [provider_A, provider_B] \<and>
   close_provider provider_A = Raised RuntimeError \<and>
   DailyFetcher_close (DailyFetcher_init [provider_B, provider_A]) = ([provider_A], Raised RuntimeError) \<and>
   provider_B \<notin> set (fst (DailyFetcher_close (DailyFetcher_init [provider_B, provider_A])))"
  by (simp add: DailyFetcher_close_def DailyFetcher_init_def provider_A_def provider_B_def)

section \<open>Properties of normalization on floats\<close>

lemma float_lt_NaN_left [simp]: "\<not> float_lt NaN b"
  by (cases b) simp_all

lemma float_lt_NaN_right [simp]: "\<not> float_lt a NaN"
  by (cases a) simp_all

lemma float_le_NaN [simp]: "\<not> float_le NaN b" "\<not> float_le a NaN"
  by (simp_all add: float_le_def)

lemma float_lt_irrefl [simp]: "\<not> float_lt a a"
  by (cases a) simp_all

lemma float_lt_infinities:
  "float_lt NegInf PosInf" "float_lt NegInf (Finite x)" "float_lt (Finite x) PosInf"
  "\<not> float_lt PosInf (Finite x)" "\<not> float_lt (Finite x) NegInf" "\<not> float_lt PosInf NegInf"
  by simp_all

lemma float_le_refl: "a \<noteq> NaN \<Longrightarrow> float_le a a"
  by (simp add: float_le_def)

lemma float_lt_le: "float_lt a b \<Longrightarrow> float_le a b"
  by (simp add: float_le_def)

lemma float_not_lt_le: "a \<noteq> NaN \<Longrightarrow> b \<noteq> NaN \<Longrightarrow> \<not> float_lt a b \<Longrightarrow> float_le b a"
  by (cases a; cases b; auto simp: float_le_def)

lemma float_le_trans: "float_le a b \<Longrightarrow> float_le b c \<Longrightarrow> float_le a c"
  by (cases a; cases b; cases c; auto simp: float_le_def)

lemma float_max3_max2: "float_max3 a b c = float_max2 (float_max2 a b) c"
  by (simp add: float_max3_def float_max2_def Let_def)

lemma float_min3_min2: "float_min3 a b c = float_min2 (float_min2 a b) c"
  by (simp add: float_min3_def float_min2_def Let_def)

lemma float_max2_upper:
  assumes "m \<noteq> NaN" "b \<noteq> NaN"
  shows "float_le m (float_max2 m b)" "float_le b (float_max2 m b)" "float_max2 m b \<noteq> NaN"
  using assms
  by (simp_all add: float_max2_def float_lt_le float_le_refl float_not_lt_le)

lemma float_min2_lower:
  assumes "m \<noteq> NaN" "b \<noteq> NaN"
  shows "float_le (float_min2 m b) m" "float_le (float_min2 m b) b" "float_min2 m b \<noteq> NaN"
  using assms
  by (simp_all add: float_min2_def float_lt_le float_le_refl float_not_lt_le)

lemma float_max3_upper:
  assumes "a \<noteq> NaN" "b \<noteq> NaN" "c \<noteq> NaN"
  shows "float_le a (float_max3 a b c)" "float_le b (float_max3 a b c)"
    "float_le c (float_max3 a b c)"
proof -
  let ?m = "float_max2 a b"
  note m = float_max2_upper [OF assms(1) assms(2)]
  note t = float_max2_upper [OF m(3) assms(3)]
  show "float_le a (float_max3 a b c)"
    unfolding float_max3_max2 using m(1) t(1) by (rule float_le_trans)
  show "float_le b (float_max3 a b c)"
    unfolding float_max3_max2 using m(2) t(1) by (rule float_le_trans)
  show "float_le c (float_max3 a b c)"
    unfolding float_max3_max2 by (rule t(2))
qed

lemma float_min3_lower:
  assumes "a \<noteq> NaN" "b \<noteq> NaN" "c \<noteq> NaN"
  shows "float_le (float_min3 a b c) a" "float_le (float_min3 a b c) b"
    "float_le (float_min3 a b c) c"
proof -
  let ?m = "float_min2 a b"
  note m = float_min2_lower [OF assms(1) assms(2)]
  note t = float_min2_lower [OF m(3) assms(3)]
  show "float_le (float_min3 a b c) a"
    unfolding float_min3_min2 using t(1) m(1) by (rule float_le_trans)
  show "float_le (float_min3 a b c) b"
    unfolding float_min3_min2 using t(1) m(2) by (rule float_le_trans)
  show "float_le (float_min3 a b c) c"
    unfolding float_min3_min2 by (rule t(2))
qed

lemma float_max3_cases: "float_max3 a b c = a \<or> float_max3 a b c = b \<or> float_max3 a b c = c"
  by (simp add: float_max3_def Let_def)

lemma float_min3_cases: "float_min3 a b c = a \<or> float_min3 a b c = b \<or> float_min3 a b c = c"
  by (simp add: float_min3_def Let_def)

lemma float_max3_NaN: "float_max3 NaN b c = NaN"
  by (simp add: float_max3_def Let_def)

lemma float_min3_NaN: "float_min3 NaN b c = NaN"
  by (simp add: float_min3_def Let_def)

lemma clean_f_fields:
  "open_f (clean_f r) = float_or (open_f r) (close_f r)"
  "high_f (clean_f r) = float_max3 (high_f r) (float_or (open_f r) (close_f r)) (close_f r)"
  "low_f (clean_f r) = float_min3 (low_f r) (float_or (open_f r) (close_f r)) (close_f r)"
  "close_f (clean_f r) = close_f r"
  by (simp_all add: clean_f_def Let_def)

lemma float_or_NaN_iff: "(float_or a b = NaN) = (a = NaN \<or> (\<not> float_truthy a \<and> b = NaN))"
  by (cases a; simp add: float_or_def)

lemma clean_f_ordered_iff: "ordered_bar (clean_f r) = nan_free r"
proof
  assume o: "ordered_bar (clean_f r)"
  show "nan_free r"
  proof (rule ccontr)
    assume "\<not> nan_free r"
    then consider "close_f r = NaN" | "open_f r = NaN" | "high_f r = NaN" | "low_f r = NaN"
      by (auto simp: nan_free_def)
    then show False
    proof cases
      case 1
      with o show False by (simp add: ordered_bar_def clean_f_fields)
    next
      case 2
      with o show False by (simp add: ordered_bar_def clean_f_fields float_or_def)
    next
      case 3
      with o show False by (simp add: ordered_bar_def clean_f_fields float_max3_NaN)
    next
      case 4
      with o show False by (simp add: ordered_bar_def clean_f_fields float_min3_NaN)
    qed
  qed
next
  assume n: "nan_free r"
  let ?o = "float_or (open_f r) (close_f r)"
  from n have h: "high_f r \<noteq> NaN" and l: "low_f r \<noteq> NaN" and c: "close_f r \<noteq> NaN"
    and o: "?o \<noteq> NaN"
    by (auto simp: nan_free_def float_or_NaN_iff)
  show "ordered_bar (clean_f r)"
    unfolding ordered_bar_def clean_f_fields
    using float_max3_upper [OF h o c] float_min3_lower [OF l o c] by simp
qed

lemma clean_f_extremes:
  assumes "nan_free r"
  shows "high_f (clean_f r) \<in> {high_f r, open_f (clean_f r), close_f (clean_f r)}"
    and "float_le (high_f r) (high_f (clean_f r))"
    and "low_f (clean_f r) \<in> {low_f r, open_f (clean_f r), close_f (clean_f r)}"
    and "float_le (low_f (clean_f r)) (low_f r)"
proof -
  let ?o = "float_or (open_f r) (close_f r)"
  from assms have h: "high_f r \<noteq> NaN" and l: "low_f r \<noteq> NaN" and c: "close_f r \<noteq> NaN"
    and o: "?o \<noteq> NaN"
    by (auto simp: nan_free_def float_or_NaN_iff)
  show "high_f (clean_f r) \<in> {high_f r, open_f (clean_f r), close_f (clean_f r)}"
    using float_max3_cases [of "high_f r" ?o "close_f r"] by (auto simp: clean_f_fields)
  show "low_f (clean_f r) \<in> {low_f r, open_f (clean_f r), close_f (clean_f r)}"
    using float_min3_cases [of "low_f r" ?o "close_f r"] by (auto simp: clean_f_fields)
  show "float_le (high_f r) (high_f (clean_f r))"
    using float_max3_upper(1) [OF h o c] by (simp add: clean_f_fields)
  show "float_le (low_f (clean_f r)) (low_f r)"
    using float_min3_lower(1) [OF l o c] by (simp add: clean_f_fields)
qed

lemma fetch_loop_f_Some:
  "snd (fetch_loop_f ps s d) = Some bar \<Longrightarrow>
     \<exists>provider \<in> set ps. \<exists>result.
        fetch_daily_f provider s d = Returned (Some result) \<and> bar = clean_f result"
  by (induction ps) (auto split: outcome.splits option.splits prod.splits)

lemma float_or_Finite: "float_or (Finite a) (Finite b) = Finite (py_or a b)"
  by (simp add: float_or_def py_or_def)

lemma float_max3_Finite:
  "float_max3 (Finite a) (Finite b) (Finite c) = Finite (py_max3 a b c)"
  by (simp add: float_max3_def py_max3_def Let_def)

lemma float_min3_Finite:
  "float_min3 (Finite a) (Finite b) (Finite c) = Finite (py_min3 a b c)"
  by (simp add: float_min3_def py_min3_def Let_def)

lemma clean_f_to_float_result: "clean_f (to_float_result r) = to_float_result (clean r)"
  by (simp add: clean_f_def clean_def to_float_result_def Let_def float_or_Finite
      float_max3_Finite float_min3_Finite)

text \<open>
  Claim C1, as amended. Every bar returned by \<^verbatim>\<open>DailyFetcher.fetch\<close> is the normalization
  of the bar some provider returned; its open is the raw open, or the close when the
  raw open is zero, and its close is the raw close. It satisfies \<open>low \<le> open \<le> high\<close>
  and \<open>low \<le> close \<le> high\<close> exactly when none of the raw open, high, low and close is
  NaN. In that case its high is the maximum of the raw high, the open and the close
  (one of the three, and at least each of them), and its low is their minimum with
  the raw low.
\<close>

theorem fetch_f_orders_nan_free_bars:
  assumes "snd (fetch_f ps s d) = Some bar"
  shows "\<exists>provider \<in> set ps. \<exists>result.
           fetch_daily_f provider s d = Returned (Some result) \<and> bar = clean_f result \<and>
           open_f bar = (if float_truthy (open_f result) then open_f result else close_f result) \<and>
           close_f bar = close_f result \<and>
           ordered_bar bar = nan_free result \<and>
           (nan_free result \<longrightarrow>
              high_f bar \<in> {high_f result, open_f bar, close_f bar} \<and>
              float_le (high_f result) (high_f bar) \<and>
              float_le (open_f bar) (high_f bar) \<and> float_le (close_f bar) (high_f bar) \<and>
              low_f bar \<in> {low_f result, open_f bar, close_f bar} \<and>
              float_le (low_f bar) (low_f result) \<and>
              float_le (low_f bar) (open_f bar) \<and> float_le (low_f bar) (close_f bar))"
proof -
  have "set (DailyFetcher_f_init ps) = set ps"
    by (simp add: DailyFetcher_f_init_def)
  with assms obtain provider result where
    p: "provider \<in> set ps" and
    r: "fetch_daily_f provider s d = Returned (Some result)" and
    b: "bar = clean_f result"
    unfolding fetch_f_def using fetch_loop_f_Some by blast
  have o: "open_f bar = (if float_truthy (open_f result) then open_f result else close_f result)"
    by (simp add: b clean_f_fields float_or_def)
  have c: "close_f bar = close_f result"
    by (simp add: b clean_f_fields)
  have iff: "ordered_bar bar = nan_free result"
    by (simp add: b clean_f_ordered_iff)
  have ext: "nan_free result \<longrightarrow>
              high_f bar \<in> {high_f result, open_f bar, close_f bar} \<and>
              float_le (high_f result) (high_f bar) \<and>
              float_le (open_f bar) (high_f bar) \<and> float_le (close_f bar) (high_f bar) \<and>
              low_f bar \<in> {low_f result, open_f bar, close_f bar} \<and>
              float_le (low_f bar) (low_f result) \<and>
              float_le (low_f bar) (open_f bar) \<and> float_le (low_f bar) (close_f bar)"
  proof
    assume n: "nan_free result"
    then have "ordered_bar bar"
      by (simp add: iff)
    with clean_f_extremes [OF n] show "high_f bar \<in> {high_f result, open_f bar, close_f bar} \<and>
              float_le (high_f result) (high_f bar) \<and>
              float_le (open_f bar) (high_f bar) \<and> float_le (close_f bar) (high_f bar) \<and>
              low_f bar \<in> {low_f result, open_f bar, close_f bar} \<and>
              float_le (low_f bar) (low_f result) \<and>
              float_le (low_f bar) (open_f bar) \<and> float_le (low_f bar) (close_f bar)"
      unfolding b ordered_bar_def by blast
  qed
  from p r b o c iff ext show ?thesis by blast
qed

theorem fetch_f_orders_nan_free_bars_witness:
  "snd (fetch_f [provider_zero_open] ''000001'' (Date 2024 3 5))
     = Some (zero_open_bar\<lparr>open_f := Finite 10.2, high_f := Finite 10.2\<rparr>) \<and>
   nan_free zero_open_bar \<and>
   ordered_bar (zero_open_bar\<lparr>open_f := Finite 10.2, high_f := Finite 10.2\<rparr>)"
proof -
  have ev: "snd (fetch_f [provider_zero_open] ''000001'' (Date 2024 3 5))
     = Some (zero_open_bar\<lparr>open_f := Finite 10.2, high_f := Finite 10.2\<rparr>)"
    by (simp add: fetch_f_def DailyFetcher_f_init_def provider_zero_open_def zero_open_bar_def
        clean_f_def float_or_def float_max3_def float_min3_def Let_def)
  have n: "nan_free zero_open_bar"
    by (simp add: nan_free_def zero_open_bar_def)
  have fd: "fetch_daily_f provider_zero_open ''000001'' (Date 2024 3 5) = Returned (Some zero_open_bar)"
    by (simp add: provider_zero_open_def)
  from fetch_f_orders_nan_free_bars [OF ev] fd n
  have "ordered_bar (zero_open_bar\<lparr>open_f := Finite 10.2, high_f := Finite 10.2\<rparr>)"
    by auto
  with ev n show ?thesis by simp
qed

text \<open>
  Claim C1 as stated fails: a bar with a NaN open is returned as it is, and neither
  \<open>low \<le> open\<close> nor \<open>open \<le> high\<close> holds of it.
\<close>

theorem fetch_f_nan_open_counterexample:
  "snd (fetch_f [provider_nan] ''000001'' (Date 2024 3 5)) = Some nan_open_bar \<and>
   open_f nan_open_bar = NaN \<and> high_f nan_open_bar = Finite 11 \<and> low_f nan_open_bar = Finite 9 \<and>
   \<not> float_le (low_f nan_open_bar) (open_f nan_open_bar) \<and>
   \<not> float_le (open_f nan_open_bar) (high_f nan_open_bar)"
  by (simp add: fetch_f_def DailyFetcher_f_init_def provider_nan_def nan_open_bar_def
      clean_f_def float_or_def float_max3_def float_min3_def Let_def)

section \<open>Properties of the storage\<close>

lemma same_key_iff: "same_key a b = (key_of a = key_of b)"
  by (auto simp: same_key_def key_of_def)

lemma key_of_record_of: "key_of (record_of dumps bar) = bar_key bar"
  by (simp add: key_of_def record_of_def bar_key_def)

lemma overwrite_eq:
  "key_of row = key_of excluded \<Longrightarrow>
     row\<lparr>row_open := row_open excluded, row_high := row_high excluded,
         row_low := row_low excluded, row_close := row_close excluded,
         row_volume := row_volume excluded, row_turnover := row_turnover excluded,
         row_raw_payload := row_raw_payload excluded\<rparr> = excluded"
  by (simp add: key_of_def)

lemma insert_or_update_keys:
  "key_of ` set (insert_or_update r rows) = insert (key_of r) (key_of ` set rows)"
  by (induction rows) (auto simp: same_key_iff overwrite_eq)

lemma insert_or_update_map_keys:
  "map key_of (insert_or_update r rows) =
     (if key_of r \<in> key_of ` set rows then map key_of rows else map key_of rows @ [key_of r])"
  by (induction rows) (auto simp: same_key_iff overwrite_eq)

lemma insert_or_update_distinct:
  "distinct (map key_of rows) \<Longrightarrow> distinct (map key_of (insert_or_update r rows))"
  by (simp add: insert_or_update_map_keys)

lemma insert_or_update_same_key:
  "distinct (map key_of rows) \<Longrightarrow>
     filter (\<lambda>row. key_of row = key_of r) (insert_or_update r rows) = [r]"
proof (induction rows)
  case Nil
  then show ?case by simp
next
  case (Cons a rows)
  show ?case
  proof (cases "key_of a = key_of r")
    case True
    with Cons.prems have "\<forall>x \<in> set rows. key_of x \<noteq> key_of r"
      by (auto simp: image_iff)
    then have "filter (\<lambda>row. key_of row = key_of r) rows = []"
      by (simp add: filter_empty_conv)
    with True show ?thesis
      by (simp add: same_key_iff overwrite_eq)
  next
    case False
    with Cons show ?thesis
      by (simp add: same_key_iff)
  qed
qed

lemma insert_or_update_other_key:
  "key_of r \<noteq> k \<Longrightarrow>
     filter (\<lambda>row. key_of row = k) (insert_or_update r rows) = filter (\<lambda>row. key_of row = k) rows"
  by (induction rows) (auto simp: same_key_iff overwrite_eq)

lemma fold_insert_or_update_keys:
  "key_of ` set (fold insert_or_update rs rows) = key_of ` set rs \<union> key_of ` set rows"
  by (induction rs arbitrary: rows) (auto simp: insert_or_update_keys)

lemma fold_insert_or_update_distinct:
  "distinct (map key_of rows) \<Longrightarrow> distinct (map key_of (fold insert_or_update rs rows))"
  by (induction rs arbitrary: rows) (auto simp: insert_or_update_distinct)

lemma upsert_daily_bars_rows:
  "daily_bars (fst (upsert_daily_bars dumps storage bars)) =
     fold insert_or_update (map (record_of dumps) bars) (daily_bars storage)"
  by (simp add: upsert_daily_bars_def upsert_daily_bars_sync_def Let_def)

lemma upsert_daily_bars_keys:
  "key_of ` set (daily_bars (fst (upsert_daily_bars dumps storage bars))) =
     bar_key ` set bars \<union> key_of ` set (daily_bars storage)"
  by (simp add: upsert_daily_bars_rows fold_insert_or_update_keys image_image key_of_record_of)

lemma upsert_daily_bars_primary_key:
  "primary_key_ok storage \<Longrightarrow> primary_key_ok (fst (upsert_daily_bars dumps storage bars))"
  by (simp add: primary_key_ok_def upsert_daily_bars_rows fold_insert_or_update_distinct)

lemma existing_dates_iff:
  "(k \<in> existing_dates_sync storage s) = ((s, k) \<in> key_of ` set (daily_bars storage))"
  by (auto simp: existing_dates_sync_def key_of_def image_iff)

lemma missing_daily_dates_filter:
  "fst (missing_daily_dates storage s D) =
     filter (\<lambda>d. (s, isoformat d) \<notin> key_of ` set (daily_bars storage)) D"
  by (simp add: missing_daily_dates_def Let_def existing_dates_iff)

lemma upsert_batches_keys:
  "key_of ` set (daily_bars storage) \<subseteq> key_of ` set (daily_bars (upsert_batches dumps storage batches))"
  unfolding upsert_batches_def
proof (induction batches arbitrary: storage)
  case Nil
  show ?case by simp
next
  case (Cons b batches)
  have "key_of ` set (daily_bars storage)
      \<subseteq> key_of ` set (daily_bars (fst (upsert_daily_bars dumps storage b)))"
    by (simp add: upsert_daily_bars_keys)
  also have "\<dots> \<subseteq> key_of ` set (daily_bars
      (fold (\<lambda>bars st. fst (upsert_daily_bars dumps st bars)) batches (fst (upsert_daily_bars dumps storage b))))"
    by (rule Cons.IH)
  finally show ?case by simp
qed

lemma isoformat_examples:
  "isoformat (Date 2024 3 4) = ''2024-03-04''"
  "isoformat (Date 2024 3 5) = ''2024-03-05''"
  "isoformat (Date 2024 3 6) = ''2024-03-06''"
  "isoformat (Date 2024 3 7) = ''2024-03-07''"
  "isoformat (Date 2024 3 8) = ''2024-03-08''"
  by (simp_all add: isoformat_def zfill_def digit_char_def str_nat.simps)

lemma primary_key_ok_empty: "primary_key_ok \<lparr>securities = secs, daily_bars = []\<rparr>"
  by (simp add: primary_key_ok_def)

lemma rows_with_key_empty_iff:
  "(rows_with_key storage k = []) = (k \<notin> key_of ` set (daily_bars storage))"
  by (auto simp: rows_with_key_def filter_empty_conv)

text \<open>
  Claim C3. \<^verbatim>\<open>missing_daily_dates(s, D)\<close> is the list of the dates of \<open>D\<close>, in the order
  of \<open>D\<close>, for which \<^verbatim>\<open>daily_bars\<close> holds no row of symbol \<open>s\<close>; so it is a sublist of \<open>D\<close>.
  Once \<^verbatim>\<open>upsert_daily_bars\<close> has stored a bar of symbol \<open>s\<close>, the date of that bar is in
  no later result for \<open>s\<close>, whatever is upserted in between.
\<close>

theorem missing_daily_dates_exact:
  "fst (missing_daily_dates storage s D) =
     filter (\<lambda>d. rows_with_key storage (s, isoformat d) = []) D \<and>
   set (fst (missing_daily_dates storage s D)) \<subseteq> set D \<and>
   subseq (fst (missing_daily_dates storage s D)) D \<and>
   (\<forall>bars bar later D'.
      bar \<in> set bars \<and> symbol bar = s \<longrightarrow>
      trade_date bar \<notin> set (fst (missing_daily_dates
         (upsert_batches dumps (fst (upsert_daily_bars dumps storage bars)) later) s D')))"
proof -
  have exact: "fst (missing_daily_dates storage s D) =
     filter (\<lambda>d. rows_with_key storage (s, isoformat d) = []) D"
    by (simp add: missing_daily_dates_filter rows_with_key_empty_iff)
  have sub: "set (fst (missing_daily_dates storage s D)) \<subseteq> set D"
    by (simp add: missing_daily_dates_filter)
  have seq: "subseq (fst (missing_daily_dates storage s D)) D"
    by (simp add: missing_daily_dates_filter)
  have conv: "\<forall>bars bar later D'.
      bar \<in> set bars \<and> symbol bar = s \<longrightarrow>
      trade_date bar \<notin> set (fst (missing_daily_dates
         (upsert_batches dumps (fst (upsert_daily_bars dumps storage bars)) later) s D'))"
  proof (intro allI impI)
    fix bars :: "ProviderResult list" and bar :: ProviderResult
      and later :: "ProviderResult list list" and D' :: "date list"
    assume a: "bar \<in> set bars \<and> symbol bar = s"
    let ?st = "fst (upsert_daily_bars dumps storage bars)"
    from a have "bar_key bar \<in> key_of ` set (daily_bars ?st)"
      by (simp add: upsert_daily_bars_keys)
    then have "bar_key bar \<in> key_of ` set (daily_bars (upsert_batches dumps ?st later))"
      using upsert_batches_keys [of ?st dumps later] by blast
    with a have "(s, isoformat (trade_date bar))
        \<in> key_of ` set (daily_bars (upsert_batches dumps ?st later))"
      by (simp add: bar_key_def)
    then show "trade_date bar \<notin> set (fst (missing_daily_dates
         (upsert_batches dumps ?st later) s D'))"
      by (simp add: missing_daily_dates_filter)
  qed
  from exact sub seq conv show ?thesis by blast
qed

theorem missing_daily_dates_exact_witness:
  "fst (missing_daily_dates empty_storage ''000001'' [Date 2024 3 5, Date 2024 3 6])
     = [Date 2024 3 5, Date 2024 3 6] \<and>
   fst (missing_daily_dates
          (fst (upsert_daily_bars example_dumps empty_storage [raw_bar ''000001'' (Date 2024 3 6)]))
          ''000001'' [Date 2024 3 5, Date 2024 3 6])
     = [Date 2024 3 5] \<and>
   Date 2024 3 6 \<notin> set (fst (missing_daily_dates
      (upsert_batches example_dumps
         (fst (upsert_daily_bars example_dumps empty_storage [raw_bar ''000001'' (Date 2024 3 6)]))
         [[raw_bar ''000002'' (Date 2024 3 6)]])
      ''000001'' [Date 2024 3 5, Date 2024 3 6]))"
proof -
  let ?b = "raw_bar ''000001'' (Date 2024 3 6)"
  let ?st = "fst (upsert_daily_bars example_dumps empty_storage [?b])"
  have h: "?b \<in> set [?b] \<and> symbol ?b = ''000001''"
    by (simp add: raw_bar_def)
  have d: "trade_date ?b = Date 2024 3 6"
    by (simp add: raw_bar_def)
  have rows: "daily_bars ?st = [record_of example_dumps ?b]"
    by (simp add: upsert_daily_bars_rows empty_storage_def)
  note inst = missing_daily_dates_exact [of empty_storage "''000001''" "[Date 2024 3 5, Date 2024 3 6]" example_dumps]
  have one: "fst (missing_daily_dates empty_storage ''000001'' [Date 2024 3 5, Date 2024 3 6])
     = [Date 2024 3 5, Date 2024 3 6]"
    using inst by (simp add: rows_with_key_def empty_storage_def)
  have two: "fst (missing_daily_dates ?st ''000001'' [Date 2024 3 5, Date 2024 3 6]) = [Date 2024 3 5]"
    unfolding missing_daily_dates_filter rows
    by (simp add: key_of_def record_of_def raw_bar_def isoformat_examples)
  from inst h have "trade_date ?b \<notin> set (fst (missing_daily_dates
      (upsert_batches example_dumps ?st [[raw_bar ''000002'' (Date 2024 3 6)]])
      ''000001'' [Date 2024 3 5, Date 2024 3 6]))"
    by blast
  with d one two show ?thesis by simp
qed

text \<open>
  Claim C4. In a table whose keys are unique, upserting \<open>b1\<close> and then \<open>b2\<close> of the same
  symbol and date, in two calls or in one batch, leaves exactly one row under that
  key, and each of its columns is that of \<open>b2\<close>. Key uniqueness holds of the empty table
  and is kept by every upsert.
\<close>

theorem upsert_last_write_wins:
  assumes "primary_key_ok storage"
    and "symbol b1 = symbol b2" and "trade_date b1 = trade_date b2"
  shows "rows_with_key
           (fst (upsert_daily_bars dumps (fst (upsert_daily_bars dumps storage [b1])) [b2]))
           (symbol b2, isoformat (trade_date b2))
         = [\<lparr>row_symbol = symbol b2, row_trade_date = isoformat (trade_date b2),
             row_open = open_price b2, row_high = high b2, row_low = low b2,
             row_close = close b2, row_volume = volume b2, row_turnover = turnover b2,
             row_raw_payload = dumps (raw b2)\<rparr>] \<and>
         rows_with_key (fst (upsert_daily_bars dumps storage [b1, b2]))
           (symbol b2, isoformat (trade_date b2))
         = [\<lparr>row_symbol = symbol b2, row_trade_date = isoformat (trade_date b2),
             row_open = open_price b2, row_high = high b2, row_low = low b2,
             row_close = close b2, row_volume = volume b2, row_turnover = turnover b2,
             row_raw_payload = dumps (raw b2)\<rparr>] \<and>
         primary_key_ok (fst (upsert_daily_bars dumps storage [b1, b2]))"
proof -
  let ?r1 = "record_of dumps b1" and ?r2 = "record_of dumps b2"
  have k: "(symbol b2, isoformat (trade_date b2)) = key_of ?r2"
    by (simp add: key_of_record_of bar_key_def)
  have r2: "?r2 = \<lparr>row_symbol = symbol b2, row_trade_date = isoformat (trade_date b2),
             row_open = open_price b2, row_high = high b2, row_low = low b2,
             row_close = close b2, row_volume = volume b2, row_turnover = turnover b2,
             row_raw_payload = dumps (raw b2)\<rparr>"
    by (simp add: record_of_def)
  from assms(1) have d1: "distinct (map key_of (insert_or_update ?r1 (daily_bars storage)))"
    by (simp add: primary_key_ok_def insert_or_update_distinct)
  have both: "filter (\<lambda>row. key_of row = key_of ?r2)
      (insert_or_update ?r2 (insert_or_update ?r1 (daily_bars storage))) = [?r2]"
    using d1 by (rule insert_or_update_same_key)
  have two_calls: "daily_bars (fst (upsert_daily_bars dumps (fst (upsert_daily_bars dumps storage [b1])) [b2]))
      = insert_or_update ?r2 (insert_or_update ?r1 (daily_bars storage))"
    by (simp add: upsert_daily_bars_rows)
  have one_call: "daily_bars (fst (upsert_daily_bars dumps storage [b1, b2]))
      = insert_or_update ?r2 (insert_or_update ?r1 (daily_bars storage))"
    by (simp add: upsert_daily_bars_rows)
  have pk: "primary_key_ok (fst (upsert_daily_bars dumps storage [b1, b2]))"
    using assms(1) by (rule upsert_daily_bars_primary_key)
  from both two_calls one_call pk show ?thesis
    unfolding rows_with_key_def k r2 [symmetric] by simp
qed

theorem upsert_last_write_wins_witness:
  "primary_key_ok empty_storage \<and>
   rows_with_key
     (fst (upsert_daily_bars example_dumps
        (fst (upsert_daily_bars example_dumps empty_storage [raw_bar ''000001'' (Date 2024 3 5)]))
        [raw_bar ''000001'' (Date 2024 3 5)\<lparr>close := 11, volume := 7\<rparr>]))
     (''000001'', isoformat (Date 2024 3 5))
   = [\<lparr>row_symbol = ''000001'', row_trade_date = isoformat (Date 2024 3 5),
       row_open = 0, row_high = 10, row_low = 9.5, row_close = 11, row_volume = 7,
       row_turnover = 0, row_raw_payload = ''{}''\<rparr>]"
proof -
  let ?b1 = "raw_bar ''000001'' (Date 2024 3 5)"
  let ?b2 = "raw_bar ''000001'' (Date 2024 3 5)\<lparr>close := 11, volume := 7\<rparr>"
  have pk: "primary_key_ok empty_storage"
    by (simp add: empty_storage_def primary_key_ok_def)
  have s: "symbol ?b1 = symbol ?b2" and d: "trade_date ?b1 = trade_date ?b2"
    by (simp_all add: raw_bar_def)
  from upsert_last_write_wins [OF pk s d, of example_dumps] pk show ?thesis
    by (simp add: raw_bar_def example_dumps_def)
qed

section \<open>Properties of the schedulers\<close>

lemma fetch_dates_eq:
  "fetch_dates fetcher s calendar bars =
     (bars @ fetched_bars fetcher calendar s, map (Fetch s) calendar)"
proof (induction calendar arbitrary: bars)
  case Nil
  show ?case by (simp add: fetched_bars_def map_filter_simps)
next
  case (Cons td calendar)
  show ?case
    by (cases "snd (fetch fetcher s td)")
      (simp_all add: Cons.IH fetched_bars_def map_filter_simps Let_def)
qed

lemma load_symbol_events:
  "snd (load_symbol dumps storage fetcher calendar s) = symbol_events dumps fetcher calendar s"
  by (simp add: load_symbol_def fetch_dates_eq symbol_events_def upsert_daily_bars_def Let_def
      split: prod.splits)

lemma initial_load_loop_events:
  "snd (initial_load_loop dumps storage fetcher calendar symbols) =
     concat (map (symbol_events dumps fetcher calendar) symbols)"
proof (induction symbols arbitrary: storage)
  case Nil
  show ?case by simp
next
  case (Cons s symbols)
  show ?case
    by (simp add: Cons.IH load_symbol_events split_beta)
qed

lemma upserts_of_symbol_events:
  "length (filter is_upsert (symbol_events dumps fetcher calendar s)) \<le> 1"
  by (simp add: symbol_events_def is_upsert_def)

lemma upserts_of_concat:
  "length (filter is_upsert (concat (map (symbol_events dumps fetcher calendar) symbols)))
     \<le> length symbols"
proof (induction symbols)
  case Nil
  show ?case by simp
next
  case (Cons s symbols)
  have "length (filter is_upsert (symbol_events dumps fetcher calendar s)) \<le> 1"
    by (rule upserts_of_symbol_events)
  with Cons show ?case by simp
qed

text \<open>
  Claim C6. For each symbol of its input, in order, \<^verbatim>\<open>run_initial_load\<close> fetches every
  date of the calendar and then writes at most one batch: none when no date returned
  a bar, otherwise one batch holding exactly the bars returned, in calendar order.
  A run makes no other write, so at most one per symbol of the input.
\<close>

theorem initial_load_one_batch_per_symbol:
  "snd (run_initial_load dumps load_trading_calendar storage fetcher symbols start end_date) =
     concat (map (\<lambda>s.
        map (Fetch s) (load_trading_calendar start end_date) @
        (if fetched_bars fetcher (load_trading_calendar start end_date) s = [] then []
         else [UpsertDailyBars (map (record_of dumps)
                 (fetched_bars fetcher (load_trading_calendar start end_date) s))]))
       symbols) \<and>
   length (filter is_upsert
     (snd (run_initial_load dumps load_trading_calendar storage fetcher symbols start end_date)))
     \<le> length symbols"
proof -
  let ?cal = "load_trading_calendar start end_date"
  have ev: "snd (run_initial_load dumps load_trading_calendar storage fetcher symbols start end_date)
      = concat (map (symbol_events dumps fetcher ?cal) symbols)"
    by (simp add: run_initial_load_def initial_load_loop_events)
  have "symbol_events dumps fetcher ?cal = (\<lambda>s.
        map (Fetch s) ?cal @
        (if fetched_bars fetcher ?cal s = [] then []
         else [UpsertDailyBars (map (record_of dumps) (fetched_bars fetcher ?cal s))]))"
    by (rule ext) (simp add: symbol_events_def)
  with ev upserts_of_concat [of dumps fetcher ?cal symbols] show ?thesis by simp
qed

lemma fetch_provider_D:
  "snd (fetch \<lparr>providers = [provider_D]\<rparr> s (Date 2024 3 4)) = Some (clean (raw_bar s (Date 2024 3 4)))"
  "snd (fetch \<lparr>providers = [provider_D]\<rparr> s (Date 2024 3 5)) = None"
  "snd (fetch \<lparr>providers = [provider_D]\<rparr> s (Date 2024 3 6)) = Some (clean (raw_bar s (Date 2024 3 6)))"
  "snd (fetch \<lparr>providers = [provider_D]\<rparr> s (Date 2024 3 7)) = None"
  "snd (fetch \<lparr>providers = [provider_D]\<rparr> s (Date 2024 3 8)) = Some (clean (raw_bar s (Date 2024 3 8)))"
  by (simp_all add: fetch_def provider_D_def)

theorem initial_load_one_batch_per_symbol_witness:
  "snd (run_initial_load example_dumps example_calendar empty_storage \<lparr>providers = [provider_D]\<rparr>
         [''000001''] (Date 2024 3 4) (Date 2024 3 8)) =
     [Fetch ''000001'' (Date 2024 3 4), Fetch ''000001'' (Date 2024 3 5),
      Fetch ''000001'' (Date 2024 3 6), Fetch ''000001'' (Date 2024 3 7),
      Fetch ''000001'' (Date 2024 3 8),
      UpsertDailyBars
        [record_of example_dumps (clean (raw_bar ''000001'' (Date 2024 3 4))),
         record_of example_dumps (clean (raw_bar ''000001'' (Date 2024 3 6))),
         record_of example_dumps (clean (raw_bar ''000001'' (Date 2024 3 8)))]]"
proof -
  have bars: "fetched_bars \<lparr>providers = [provider_D]\<rparr>
      (example_calendar (Date 2024 3 4) (Date 2024 3 8)) ''000001'' =
      [clean (raw_bar ''000001'' (Date 2024 3 4)), clean (raw_bar ''000001'' (Date 2024 3 6)),
       clean (raw_bar ''000001'' (Date 2024 3 8))]"
    by (simp add: fetched_bars_def example_calendar_def map_filter_simps fetch_provider_D)
  from initial_load_one_batch_per_symbol [of example_dumps example_calendar empty_storage
      "\<lparr>providers = [provider_D]\<rparr>" "[''000001'']" "Date 2024 3 4" "Date 2024 3 8"]
  show ?thesis
    by (simp add: example_calendar_def bars [unfolded example_calendar_def])
qed

lemma missing_single:
  "fst (missing_daily_dates storage s [td]) \<noteq> [] \<longleftrightarrow> is_missing storage td s"
  by (auto simp: missing_daily_dates_def existing_dates_sync_def is_missing_def rows_with_key_def
      key_of_def Let_def filter_empty_conv image_iff)

lemma compute_missing_eq:
  "compute_missing storage ss td result =
     (fold (\<lambda>s m. AList.update s (is_missing storage td s) m) ss result, map ExistingDates ss)"
proof (induction ss arbitrary: result)
  case Nil
  show ?case by simp
next
  case (Cons s ss)
  have ev: "snd (missing_daily_dates storage s [td]) = [ExistingDates s]"
    by (simp add: missing_daily_dates_def Let_def)
  show ?case
    by (simp add: Cons.IH split_beta ev missing_single)
qed

lemma fold_update_distinct:
  "distinct (map fst m) \<Longrightarrow> distinct (map fst (fold (\<lambda>s m. AList.update s (f s) m) ss m))"
  by (induction ss arbitrary: m) (simp_all add: distinct_update)

lemma fold_update_map_of:
  "map_of (fold (\<lambda>s m. AList.update s (f s) m) ss m) s =
     (if s \<in> set ss then Some (f s) else map_of m s)"
  by (induction ss arbitrary: m) (auto simp: update_conv')

lemma update_loop_events:
  "snd (update_loop dumps storage fetcher td m) = concat (map (item_events dumps fetcher td) m)"
proof (induction m arbitrary: storage)
  case Nil
  show ?case by simp
next
  case (Cons item m)
  obtain s should_fetch where item: "item = (s, should_fetch)"
    by (cases item)
  show ?case
    by (cases "snd (fetch fetcher s td)")
      (simp_all add: item Cons.IH split_beta item_events_def upsert_daily_bars_def Let_def)
qed

lemma fetches_of_item:
  "fetches_of s (item_events dumps fetcher td item) =
     (if item = (s, True) then [Fetch s td] else [])"
  by (cases item) (auto simp: fetches_of_def item_events_def split: option.splits)

lemma fetches_of_append: "fetches_of s (xs @ ys) = fetches_of s xs @ fetches_of s ys"
  by (simp add: fetches_of_def)

lemma fetches_of_items:
  "distinct (map fst m) \<Longrightarrow>
     fetches_of s (concat (map (item_events dumps fetcher td) m)) =
       (if map_of m s = Some True then [Fetch s td] else [])"
proof (induction m)
  case Nil
  show ?case by (simp add: fetches_of_def)
next
  case (Cons item m)
  obtain s' v where item: "item = (s', v)"
    by (cases item)
  from Cons.prems have notin: "s' \<notin> fst ` set m" and dist: "distinct (map fst m)"
    by (simp_all add: item)
  show ?case
  proof (cases "s' = s")
    case True
    with notin have "map_of m s = None"
      by (simp add: map_of_eq_None_iff)
    with True show ?thesis
      by (simp add: fetches_of_append fetches_of_item Cons.IH [OF dist] item)
  next
    case False
    then show ?thesis
      by (simp add: fetches_of_append fetches_of_item Cons.IH [OF dist] item)
  qed
qed

lemma queries_of_append: "queries_of s (xs @ ys) = queries_of s xs @ queries_of s ys"
  by (simp add: queries_of_def)

lemma queries_of_map: "length (queries_of s (map ExistingDates ss)) = count_list ss s"
  by (induction ss) (simp_all add: queries_of_def)

lemma queries_of_items: "queries_of s (concat (map (item_events dumps fetcher td) m)) = []"
  by (induction m) (auto simp: queries_of_def item_events_def split: option.splits)

lemma fetches_of_queries: "fetches_of s (map ExistingDates ss) = []"
  by (induction ss) (simp_all add: fetches_of_def)

lemma run_daily_update_events:
  "snd (run_daily_update dumps storage fetcher td (Some ss)) =
     map ExistingDates ss @
     concat (map (item_events dumps fetcher td)
       (fold (\<lambda>s m. AList.update s (is_missing storage td s) m) ss []))"
  by (simp add: run_daily_update_def compute_missing_eq update_loop_events split_beta)

text \<open>
  Claim C10, as amended. For an explicit list of symbols, \<^verbatim>\<open>run_daily_update\<close> reads the
  stored dates of a symbol once for each occurrence of the symbol in the list, and
  fetches the symbol once when it occurs in the list and has no row for the date,
  never otherwise: at most once, however often it occurs.
\<close>

theorem daily_update_fetches_once_checks_each:
  "length (queries_of s (snd (run_daily_update dumps storage fetcher td (Some ss))))
     = count_list ss s \<and>
   fetches_of s (snd (run_daily_update dumps storage fetcher td (Some ss)))
     = (if s \<in> set ss \<and> is_missing storage td s then [Fetch s td] else []) \<and>
   length (fetches_of s (snd (run_daily_update dumps storage fetcher td (Some ss)))) \<le> 1"
proof -
  let ?m = "fold (\<lambda>s m. AList.update s (is_missing storage td s) m) ss []"
  have d: "distinct (map fst ?m)"
    by (rule fold_update_distinct) simp
  have v: "map_of ?m s = (if s \<in> set ss then Some (is_missing storage td s) else None)"
    by (simp add: fold_update_map_of)
  have q: "length (queries_of s (snd (run_daily_update dumps storage fetcher td (Some ss))))
     = count_list ss s"
    by (simp add: run_daily_update_events queries_of_append queries_of_map queries_of_items)
  have f: "fetches_of s (snd (run_daily_update dumps storage fetcher td (Some ss)))
     = (if s \<in> set ss \<and> is_missing storage td s then [Fetch s td] else [])"
    by (simp add: run_daily_update_events fetches_of_append fetches_of_queries
        fetches_of_items [OF d] v)
  from q f show ?thesis by simp
qed

theorem daily_update_fetches_once_checks_each_witness:
  "snd (run_daily_update example_dumps empty_storage \<lparr>providers = [provider_D]\<rparr> (Date 2024 3 4)
          (Some [''000001'', ''000002'', ''000001''])) =
     [ExistingDates ''000001'', ExistingDates ''000002'', ExistingDates ''000001'',
      Fetch ''000001'' (Date 2024 3 4),
      UpsertDailyBars [record_of example_dumps (clean (raw_bar ''000001'' (Date 2024 3 4)))],
      Fetch ''000002'' (Date 2024 3 4),
      UpsertDailyBars [record_of example_dumps (clean (raw_bar ''000002'' (Date 2024 3 4)))]] \<and>
   length (queries_of ''000001''
     (snd (run_daily_update example_dumps empty_storage \<lparr>providers = [provider_D]\<rparr> (Date 2024 3 4)
          (Some [''000001'', ''000002'', ''000001''])))) = 2 \<and>
   fetches_of ''000001''
     (snd (run_daily_update example_dumps empty_storage \<lparr>providers = [provider_D]\<rparr> (Date 2024 3 4)
          (Some [''000001'', ''000002'', ''000001'']))) = [Fetch ''000001'' (Date 2024 3 4)]"
proof -
  have m: "is_missing empty_storage (Date 2024 3 4) s" for s
    by (simp add: is_missing_def rows_with_key_def empty_storage_def)
  have tr: "snd (run_daily_update example_dumps empty_storage \<lparr>providers = [provider_D]\<rparr> (Date 2024 3 4)
          (Some [''000001'', ''000002'', ''000001''])) =
     [ExistingDates ''000001'', ExistingDates ''000002'', ExistingDates ''000001'',
      Fetch ''000001'' (Date 2024 3 4),
      UpsertDailyBars [record_of example_dumps (clean (raw_bar ''000001'' (Date 2024 3 4)))],
      Fetch ''000002'' (Date 2024 3 4),
      UpsertDailyBars [record_of example_dumps (clean (raw_bar ''000002'' (Date 2024 3 4)))]]"
    by (simp add: run_daily_update_events m item_events_def fetch_provider_D)
  from daily_update_fetches_once_checks_each [of "''000001''" example_dumps empty_storage
      "\<lparr>providers = [provider_D]\<rparr>" "Date 2024 3 4" "[''000001'', ''000002'', ''000001'']"] tr
  show ?thesis
    by (simp add: m)
qed

text \<open>
  Claim C10 as stated fails: a symbol given twice is checked against the storage twice.
\<close>

theorem daily_update_checks_duplicates_counterexample:
  "snd (run_daily_update example_dumps empty_storage \<lparr>providers = [provider_D]\<rparr> (Date 2024 3 5)
          (Some [''000001'', ''000001''])) =
     [ExistingDates ''000001'', ExistingDates ''000001'', Fetch ''000001'' (Date 2024 3 5)] \<and>
   length (queries_of ''000001''
     (snd (run_daily_update example_dumps empty_storage \<lparr>providers = [provider_D]\<rparr> (Date 2024 3 5)
          (Some [''000001'', ''000001''])))) = 2"
proof -
  have m: "is_missing empty_storage (Date 2024 3 5) s" for s
    by (simp add: is_missing_def rows_with_key_def empty_storage_def)
  show ?thesis
    by (simp add: run_daily_update_events m item_events_def fetch_provider_D queries_of_def)
qed

section \<open>Properties of the retry decorator\<close>

text \<open>With \<open>attempts < 1\<close> the loop body never runs and the wrapper raises \<^verbatim>\<open>RuntimeError\<close>.\<close>

lemma async_retry_no_attempts:
  "attempts < 1 \<Longrightarrow> async_retry attempts base_delay exceptions func = ([], Raised RuntimeError)"
  by (simp add: async_retry_def retry_loop.simps [of exceptions func attempts 1 base_delay])

lemma concat_map_upt_Suc:
  "concat (map f [0..<Suc n]) = f 0 @ concat (map (\<lambda>i. f (Suc i)) [0..<n])"
proof -
  have "[0..<Suc n] = 0 # map Suc [0..<n]"
    by (simp add: upt_conv_Cons map_Suc_upt del: upt_Suc)
  then show ?thesis
    by (simp add: comp_def del: upt_Suc)
qed

lemma retry_loop_failing:
  assumes "\<forall>k. a \<le> k \<and> k \<le> N \<longrightarrow> (\<exists>exc. func k = Raised exc \<and> exceptions exc)"
    and "a \<le> N" and "n = nat (N - a)"
  shows "retry_loop exceptions func N a d =
     (concat (map (\<lambda>i. [Invoke, Sleep (d * 2 ^ i)]) [0..<n]) @ [Invoke], func N)"
  using assms
proof (induction n arbitrary: a d)
  case 0
  then have eq: "a = N" by simp
  from 0 eq obtain exc where "func N = Raised exc" "exceptions exc"
    by blast
  then show ?case
    unfolding eq by (simp add: retry_loop.simps [of exceptions func N N d])
next
  case (Suc n)
  then have lt: "a < N" by simp
  from Suc.prems lt obtain exc where e: "func a = Raised exc" "exceptions exc"
    by (metis order_less_imp_le order_refl)
  have fa: "\<forall>k. a + 1 \<le> k \<and> k \<le> N \<longrightarrow> (\<exists>exc. func k = Raised exc \<and> exceptions exc)"
    using Suc.prems(1) by auto
  have n: "n = nat (N - (a + 1))"
    using Suc.prems(3) by simp
  have le: "a + 1 \<le> N"
    using lt by simp
  have ih: "retry_loop exceptions func N (a + 1) (d * 2) =
     (concat (map (\<lambda>i. [Invoke, Sleep (d * 2 * 2 ^ i)]) [0..<n]) @ [Invoke], func N)"
    by (rule Suc.IH [OF fa le n])
  have step: "retry_loop exceptions func N a d =
     (Invoke # Sleep d # fst (retry_loop exceptions func N (a + 1) (d * 2)),
      snd (retry_loop exceptions func N (a + 1) (d * 2)))"
    using lt e by (simp add: retry_loop.simps [of exceptions func N a d] split_beta)
  show ?case
    unfolding step ih concat_map_upt_Suc by (simp add: mult.assoc)
qed

text \<open>
  Claim C5. With \<open>attempts \<ge> 1\<close>, on an operation each of whose invocations raises an
  exception of the configured set, the wrapper invokes the operation exactly \<open>attempts\<close>
  times, sleeps \<open>base_delay * 2^(i-1)\<close> after the \<open>i\<close>-th failure for each \<open>i < attempts\<close>,
  and ends by raising the exception of the last invocation, unchanged.
\<close>

theorem async_retry_exhausts_attempts:
  assumes "1 \<le> attempts"
    and "\<forall>k. 1 \<le> k \<and> k \<le> attempts \<longrightarrow> (\<exists>exc. func k = Raised exc \<and> exceptions exc)"
  shows "async_retry attempts base_delay exceptions func =
           (concat (map (\<lambda>i. [Invoke, Sleep (base_delay * 2 ^ (i - 1))]) [1..<nat attempts])
              @ [Invoke],
            func attempts) \<and>
         length (filter (\<lambda>e. e = Invoke) (fst (async_retry attempts base_delay exceptions func)))
           = nat attempts \<and>
         filter (\<lambda>e. e \<noteq> Invoke) (fst (async_retry attempts base_delay exceptions func))
           = map (\<lambda>i. Sleep (base_delay * 2 ^ (i - 1))) [1..<nat attempts]"
proof -
  let ?n = "nat (attempts - 1)"
  have run: "async_retry attempts base_delay exceptions func =
     (concat (map (\<lambda>i. [Invoke, Sleep (base_delay * 2 ^ i)]) [0..<?n]) @ [Invoke], func attempts)"
    unfolding async_retry_def using assms(2) assms(1) by (rule retry_loop_failing) simp
  have idx: "[1..<nat attempts] = map Suc [0..<?n]"
    using assms(1) by (simp add: map_Suc_upt Suc_nat_eq_nat_zadd1)
  have shift: "concat (map (\<lambda>i. [Invoke, Sleep (base_delay * 2 ^ (i - 1))]) [1..<nat attempts])
      = concat (map (\<lambda>i. [Invoke, Sleep (base_delay * 2 ^ i)]) [0..<?n])"
    unfolding idx by (simp add: comp_def)
  have sleeps: "map (\<lambda>i. Sleep (base_delay * 2 ^ (i - 1))) [1..<nat attempts]
      = map (\<lambda>i. Sleep (base_delay * 2 ^ i)) [0..<?n]"
    unfolding idx by (simp add: comp_def)
  have cnt: "length (filter (\<lambda>e. e = Invoke)
      (concat (map (\<lambda>i. [Invoke, Sleep (base_delay * 2 ^ i)]) [0..<m]))) = m" for m
    by (induction m) simp_all
  have sl: "filter (\<lambda>e. e \<noteq> Invoke)
      (concat (map (\<lambda>i. [Invoke, Sleep (base_delay * 2 ^ i)]) [0..<m]))
      = map (\<lambda>i. Sleep (base_delay * 2 ^ i)) [0..<m]" for m
    by (induction m) simp_all
  have n1: "Suc ?n = nat attempts"
    using assms(1) by simp
  show ?thesis
    unfolding shift sleeps run using n1 by (simp add: cnt sl)
qed

theorem async_retry_exhausts_attempts_witness:
  "async_retry 3 1 any_exception always_failing =
     ([Invoke, Sleep 1, Invoke, Sleep 2, Invoke], Raised HTTPError)"
proof -
  have a: "(1::int) \<le> 3" by simp
  have f: "\<forall>k. 1 \<le> k \<and> k \<le> 3 \<longrightarrow>
      (\<exists>exc. always_failing k = Raised exc \<and> any_exception exc)"
    by (simp add: always_failing_def any_exception_def)
  have idx: "[1..<nat 3] = [1, 2]"
    by (simp add: upt_rec)
  have r: "always_failing 3 = Raised HTTPError"
    by (simp add: always_failing_def)
  from async_retry_exhausts_attempts [OF a f, of 1] show ?thesis
    unfolding idx by (simp add: r)
qed

section \<open>Properties of the providers\<close>

text \<open>
  \<^verbatim>\<open>close()\<close> of the two providers never fails: the client is closed only when it is
  owned and present, and it is owned only when absent.
\<close>

lemma provider_close_ok: "provider_close client = Returned ()"
  by (simp add: provider_close_def)

lemma concrete_providers_close_ok:
  "closes_ok (QQProvider str2float request prio client)"
  "closes_ok (EastMoneyProvider str2float request prio client)"
  by (simp_all add: closes_ok_def QQProvider_def EastMoneyProvider_def provider_close_ok)

lemma strftime_examples:
  "strftime_ymd (Date 2024 3 5) = ''2024-03-05''"
  "strftime_ymd (Date 999 3 5) = ''999-03-05''"
  by (simp_all add: strftime_ymd_def zfill_def digit_char_def str_nat.simps)

text \<open>
  What the two providers do with a record that has a field in the wrong form. The
  \<^verbatim>\<open>try\<close> block of \<^verbatim>\<open>EastMoneyProvider\<close> holds all six conversions, so a row found for the
  date never makes it raise. The one of \<^verbatim>\<open>QQProvider\<close> holds the four prices only.
\<close>

lemma QQ_raises_on_text_volume:
  "QQ_fetch_daily example_str2float (\<lambda>s td. Returned qq_payload_text_volume) s td
     = Raised ValueError"
  by (simp add: QQ_fetch_daily_def QQ_parse_payload_def QQ_select_bar_def QQ_prices_def
      float_field_def obind_def qq_payload_text_volume_def example_str2float_def)

lemma QQ_absent_on_missing_price:
  "QQ_fetch_daily str2float (\<lambda>s td. Returned qq_payload_no_close) s td = Returned None"
  by (simp add: QQ_fetch_daily_def QQ_parse_payload_def QQ_select_bar_def QQ_prices_def
      float_field_def obind_def qq_payload_no_close_def)

lemma EastMoney_absent_on_text_volume:
  "EastMoney_fetch_daily example_str2float (\<lambda>s td. Returned eastmoney_payload_text_volume)
     s (Date 2024 3 5) = Returned None"
  by (simp add: EastMoney_fetch_daily_def EastMoney_parse_payload_def EastMoney_parse_row_def
      except_type_value_def obind_def eastmoney_payload_text_volume_def example_str2float_def
      strftime_examples)

lemma EastMoney_raises_on_scalar_klines:
  "EastMoney_fetch_daily str2float (\<lambda>s td. Returned eastmoney_payload_scalar_klines) s td
     = Raised TypeError"
  by (simp add: EastMoney_fetch_daily_def EastMoney_parse_payload_def obind_def
      eastmoney_payload_scalar_klines_def)

lemma py_float_str_raises: "py_float str2float (JStr s) = Raised exc \<Longrightarrow> exc = ValueError"
  by (simp split: option.splits)

lemma EastMoney_parse_row_raises:
  "EastMoney_parse_row str2float s td payload target = Raised exc \<Longrightarrow> exc = ValueError"
  unfolding EastMoney_parse_row_def obind_def
  by (auto split: list.splits outcome.splits option.splits)

lemma EastMoney_row_never_raises:
  "\<exists>res. except_type_value (EastMoney_parse_row str2float s td payload target) = Returned res"
proof (cases "EastMoney_parse_row str2float s td payload target")
  case (Returned v)
  then show ?thesis by (simp add: except_type_value_def)
next
  case (Raised exc)
  then have "exc = ValueError" by (rule EastMoney_parse_row_raises)
  with Raised show ?thesis by (simp add: except_type_value_def)
qed

text \<open>
  Claim C7 asks that a malformed record yields \<open>None\<close> from \<^verbatim>\<open>fetch_daily\<close>, for both
  providers. \<^verbatim>\<open>QQProvider\<close> does not meet it: on a record with its four prices and a
  \<^verbatim>\<open>null\<close> volume, the conversion of the volume, which stands after the \<^verbatim>\<open>try\<close> block,
  raises \<^verbatim>\<open>TypeError\<close> out of \<^verbatim>\<open>fetch_daily\<close>.
\<close>

theorem QQ_raises_on_null_volume:
  "QQ_fetch_daily str2float (\<lambda>s td. Returned qq_payload_null_volume) s td = Raised TypeError"
  by (simp add: QQ_fetch_daily_def QQ_parse_payload_def QQ_select_bar_def QQ_prices_def
      float_field_def obind_def qq_payload_null_volume_def)

end
